theory Spec2Isabelle
  imports Complex_Main "HOL-Library.Log_Nat" "HOL-Library.Monad_Syntax"
begin

section \<open>Python string primitives used by the backend\<close>

text \<open>
  A Python \<open>str\<close> is modelled as a \<open>string\<close> whose characters are the code points
  0..255 (Latin-1). The functions below follow CPython on that range:
  \<open>str.lower\<close>, \<open>str.isspace\<close>, \<open>sub in s\<close>, \<open>s.count(sub)\<close>, \<open>s.split()\<close>,
  \<open>s.split(sep)\<close>, \<open>s.endswith(suffix)\<close> and \<open>s.rfind(ch)\<close>.
\<close>

definition lower_char :: "char \<Rightarrow> char" where
  "lower_char c =
     (let n = (of_char c :: nat)
      in if (65 \<le> n \<and> n \<le> 90) \<or> (192 \<le> n \<and> n \<le> 222 \<and> n \<noteq> 215)
         then char_of (n + 32) else c)"

definition lower :: "string \<Rightarrow> string" where
  "lower s = map lower_char s"

definition isspace :: "char \<Rightarrow> bool" where
  "isspace c = ((of_char c :: nat) \<in> {9, 10, 11, 12, 13, 28, 29, 30, 31, 32, 133, 160})"

definition startswith :: "string \<Rightarrow> string \<Rightarrow> bool" where
  "startswith s p = (take (length p) s = p)"

definition endswith :: "string \<Rightarrow> string \<Rightarrow> bool" where
  "endswith s p = (length p \<le> length s \<and> drop (length s - length p) s = p)"

text \<open>\<open>py_in sub s\<close> is Python's \<open>sub in s\<close>: \<open>sub\<close> occurs in \<open>s\<close> as a contiguous block.\<close>

fun py_in :: "string \<Rightarrow> string \<Rightarrow> bool" where
  "py_in sub [] = (sub = [])"
| "py_in sub (c # cs) = (startswith (c # cs) sub \<or> py_in sub cs)"

text \<open>
  \<open>py_count s sub\<close> is \<open>s.count(sub)\<close>: the number of non-overlapping occurrences, found
  scanning from the left; after a match the scan resumes behind it.
\<close>

function py_count :: "string \<Rightarrow> string \<Rightarrow> nat" where
  "py_count s sub =
     (if sub = [] then length s + 1
      else if s = [] then 0
      else if startswith s sub then 1 + py_count (drop (length sub) s) sub
      else py_count (tl s) sub)"
  by pat_completeness auto
termination
  by (relation "measure (\<lambda>(s, sub). length s)") auto

declare py_count.simps [simp del]

text \<open>\<open>split_ws s\<close> is \<open>s.split()\<close>: the maximal runs of non-whitespace characters.\<close>

fun words_acc :: "string \<Rightarrow> string \<Rightarrow> string list" where
  "words_acc w [] = (if w = [] then [] else [rev w])"
| "words_acc w (c # cs) =
     (if isspace c then (if w = [] then words_acc [] cs else rev w # words_acc [] cs)
      else words_acc (c # w) cs)"

definition split_ws :: "string \<Rightarrow> string list" where
  "split_ws s = words_acc [] s"

text \<open>\<open>split_on sep s\<close> is \<open>s.split(sep)\<close> for a one-character separator; empty pieces are kept.\<close>

fun split_on :: "char \<Rightarrow> string \<Rightarrow> string list" where
  "split_on sep [] = [[]]"
| "split_on sep (c # cs) =
     (if c = sep then [] # split_on sep cs
      else (case split_on sep cs of [] \<Rightarrow> [[c]] | w # ws \<Rightarrow> (c # w) # ws))"

text \<open>\<open>rfind ch s\<close> is \<open>s.rfind(ch)\<close>, with \<open>None\<close> for Python's \<open>-1\<close>.\<close>

definition rfind :: "char \<Rightarrow> string \<Rightarrow> nat option" where
  "rfind ch s =
     (if ch \<in> set s then Some (length s - 1 - length (takeWhile (\<lambda>x. x \<noteq> ch) (rev s)))
      else None)"

section \<open>video\_utils.py: extension-based video detection\<close>

definition SUPPORTED_VIDEO_FORMATS :: "string list" where
  "SUPPORTED_VIDEO_FORMATS =
     [''.mp4'', ''.avi'', ''.mov'', ''.mkv'', ''.webm'', ''.flv'', ''.wmv'', ''.m4v'']"

text \<open>
  \<open>Path(p).name\<close> on a POSIX path: the path is cut at \<open>/\<close>, empty and \<open>.\<close> components are
  dropped, and the name is the last component left (empty when there is none).
  \<open>Path(p).suffix\<close>: with \<open>i = name.rfind('.')\<close>, the suffix is \<open>name[i:]\<close> when
  \<open>0 < i < len(name) - 1\<close>, and empty otherwise.
\<close>

definition path_name :: "string \<Rightarrow> string" where
  "path_name p =
     (let parts = filter (\<lambda>c. c \<noteq> [] \<and> c \<noteq> ''.'') (split_on CHR ''/'' p)
      in if parts = [] then [] else last parts)"

definition path_suffix :: "string \<Rightarrow> string" where
  "path_suffix p =
     (let name = path_name p
      in case rfind CHR ''.'' name of
           None \<Rightarrow> []
         | Some i \<Rightarrow> if 0 < i \<and> i + 1 < length name then drop i name else [])"

definition is_video_file :: "string \<Rightarrow> bool" where
  "is_video_file file_path =
     (let file_extension = lower (path_suffix file_path)
      in file_extension \<in> set SUPPORTED_VIDEO_FORMATS)"

section \<open>interview\_utils.py: content analyzer\<close>

text \<open>
  The result dict, with its nested dict \<open>detailed_breakdown\<close>; the key is optional because
  the orchestrator's fallback report has a content dict without it.
\<close>

record score_breakdown =
  technical_score :: int
  soft_skills_score :: int
  experience_score :: int

record content_metrics =
  content_quality_score :: int
  technical_skills_mentioned :: "string list"
  soft_skills_mentioned :: "string list"
  experience_indicators :: int
  detailed_breakdown :: "score_breakdown option"

definition technical_skills :: "string list" where
  "technical_skills =
     [''python'', ''javascript'', ''java'', ''react'', ''node'', ''sql'', ''aws'', ''docker'',
      ''kubernetes'', ''git'', ''html'', ''css'', ''mongodb'', ''postgresql'', ''redis'',
      ''machine learning'', ''ai'', ''data science'', ''api'', ''rest'', ''microservices'']"

definition soft_skills :: "string list" where
  "soft_skills =
     [''teamwork'', ''leadership'', ''communication'', ''problem solving'', ''creative'',
      ''analytical'', ''organized'', ''adaptable'', ''collaborative'', ''motivated'']"

definition experience_indicator_words :: "string list" where
  "experience_indicator_words =
     [''experience'', ''worked'', ''developed'', ''built'', ''implemented'', ''managed'',
      ''led'', ''created'', ''designed'', ''optimized'', ''maintained'', ''deployed'']"

definition analyze_content_quality :: "string \<Rightarrow> content_metrics" where
  "analyze_content_quality text =
     (let mentioned_technical = filter (\<lambda>skill. py_in skill (lower text)) technical_skills;
          mentioned_soft = filter (\<lambda>skill. py_in skill (lower text)) soft_skills;
          mentioned_experience =
            filter (\<lambda>indicator. py_in indicator (lower text)) experience_indicator_words;
          technical = min 40 (int (length mentioned_technical) * 8);
          soft = min 30 (int (length mentioned_soft) * 6);
          experience = min 30 (int (length mentioned_experience) * 3);
          content_quality = technical + soft + experience
      in \<lparr> content_quality_score = content_quality,
           technical_skills_mentioned = mentioned_technical,
           soft_skills_mentioned = mentioned_soft,
           experience_indicators = int (length mentioned_experience),
           detailed_breakdown =
             Some \<lparr> technical_score = technical,
                    soft_skills_score = soft,
                    experience_score = experience \<rparr> \<rparr>)"

section \<open>Python floats\<close>

text \<open>
  A Python \<open>float\<close> is an IEEE 754 binary64 number. Its value is kept as a rational, and
  every float operation is the exact operation followed by \<open>fl\<close>, which rounds to the
  nearest number with a 53-bit significand, ties to the even significand. \<open>binade x\<close> is
  the exponent \<open>e\<close> with \<open>2^e \<le> x < 2^(e+1)\<close>. The exponent range is left unbounded:
  binary64 overflows beyond \<open>2^1024\<close> and loses precision below \<open>2^-1022\<close>, magnitudes
  that no count of characters of a string in memory reaches. A Python \<open>int\<close> below
  \<open>2^53\<close> converts to the same value as a float.
\<close>

definition round_half_even :: "rat \<Rightarrow> int" where
  "round_half_even x =
     (let f = \<lfloor>x\<rfloor>; d = x - of_int f
      in if d < 1 / 2 then f else if 1 / 2 < d then f + 1 else if even f then f else f + 1)"

definition binade :: "rat \<Rightarrow> int" where
  "binade x = (if 1 \<le> x then bitlen \<lfloor>x\<rfloor> - 1 else - bitlen (\<lceil>1 / x\<rceil> - 1))"

definition fl :: "rat \<Rightarrow> rat" where
  "fl x =
     (if x = 0 then 0
      else let u = 2 powi (binade \<bar>x\<bar> - 52) in of_int (round_half_even (x / u)) * u)"

text \<open>\<open>int(x)\<close> on a float truncates toward zero.\<close>

definition py_int :: "rat \<Rightarrow> int" where
  "py_int x = (if 0 \<le> x then \<lfloor>x\<rfloor> else \<lceil>x\<rceil>)"

text \<open>
  \<open>round(x, n)\<close> on a float: the exact value is rounded to \<open>n\<close> decimals, ties to even,
  and the decimal is converted back to the nearest float.
\<close>

definition py_round_nd :: "rat \<Rightarrow> nat \<Rightarrow> rat" where
  "py_round_nd x n = fl (of_int (round_half_even (x * 10 ^ n)) / 10 ^ n)"

text \<open>
  \<open>a / b\<close> on two Python ints is the correctly rounded quotient and raises
  \<open>ZeroDivisionError\<close> when \<open>b = 0\<close>; a raise is the value \<open>None\<close>.
\<close>

definition truediv :: "int \<Rightarrow> int \<Rightarrow> rat option" where
  "truediv a b = (if b = 0 then None else Some (fl (of_int a / of_int b)))"

section \<open>interview\_utils.py: speech analyzer\<close>

record speech_metrics =
  confidence_score :: int
  clarity_score :: int
  hesitation_rate :: int
  filler_word_count :: int
  total_words :: int
  avg_sentence_length :: rat

definition filler_words :: "string list" where
  "filler_words =
     [''um'', ''uh'', ''er'', ''ah'', ''like'', ''you know'', ''so'', ''basically'', ''actually'']"

definition confident_phrases :: "string list" where
  "confident_phrases =
     [''i am confident'', ''i believe'', ''i know'', ''definitely'', ''absolutely'', ''certainly'']"

definition uncertain_phrases :: "string list" where
  "uncertain_phrases =
     [''maybe'', ''i think'', ''probably'', ''not sure'', ''i guess'', ''perhaps'']"

text \<open>\<open>sum(text.lower().count(w) for w in ws)\<close>.\<close>

definition count_hits :: "string list \<Rightarrow> string \<Rightarrow> int" where
  "count_hits ws text = (\<Sum>w\<leftarrow>ws. int (py_count (lower text) w))"

text \<open>
  The hesitation rate before truncation, as line 90 computes it; the other scores are
  computed from this value, not from the truncated field of the result.
\<close>

definition raw_hesitation_rate :: "string \<Rightarrow> rat option" where
  "raw_hesitation_rate text =
     (let filler_count = count_hits filler_words text;
          n_words = int (length (split_ws text))
      in if n_words > 0
         then do { q \<leftarrow> truediv filler_count (max n_words 1); Some (min 100 (fl (q * 100))) }
         else Some 0)"

definition raw_avg_sentence_length :: "string \<Rightarrow> rat option" where
  "raw_avg_sentence_length text =
     (let sentences = split_on CHR ''.'' text
      in truediv (\<Sum>s\<leftarrow>sentences. int (length (split_ws s))) (max (int (length sentences)) 1))"

definition analyze_speech_patterns :: "string \<Rightarrow> speech_metrics option" where
  "analyze_speech_patterns text =
     do {
       let filler_count = count_hits filler_words text;
       let n_words = int (length (split_ws text));
       hesitation \<leftarrow> raw_hesitation_rate text;
       let confident_count = count_hits confident_phrases text;
       let uncertain_count = count_hits uncertain_phrases text;
       let confidence_base = max 0 (fl (80 - hesitation));
       let confidence_adjustment = confident_count * 5 - uncertain_count * 3;
       let confidence = min 100 (max 0 (fl (confidence_base + of_int confidence_adjustment)));
       avg \<leftarrow> raw_avg_sentence_length text;
       let clarity0 = fl (100 - fl (\<bar>fl (avg - 15)\<bar> * 2));
       let clarity = max 50 (min 100 clarity0);
       Some \<lparr> confidence_score = py_int confidence,
              clarity_score = py_int clarity,
              hesitation_rate = py_int hesitation,
              filler_word_count = filler_count,
              total_words = n_words,
              avg_sentence_length = py_round_nd avg 1 \<rparr>
     }"

section \<open>interview\_utils.py: sentiment analyzer\<close>

text \<open>
  The module flag \<open>ADVANCED_FEATURES\<close> and the text-polarity library are parameters.
  \<open>textblob text\<close> is the library's \<open>(polarity, subjectivity)\<close>, or \<open>None\<close> when the
  import inside the function raises \<open>ImportError\<close>. A dict is an association list in
  insertion order.
\<close>

record sentiment_metrics =
  overall_sentiment :: string
  polarity :: rat
  subjectivity :: rat
  emotion_breakdown :: "(string \<times> int) list"
  dominant_emotion :: string

definition positive_words :: "string list" where
  "positive_words = [''excited'', ''confident'', ''enjoy'', ''love'', ''passionate'', ''skilled'']"

definition negative_words :: "string list" where
  "negative_words = [''nervous'', ''worried'', ''difficult'', ''struggle'', ''unsure'']"

definition emotion_keywords :: "(string \<times> string list) list" where
  "emotion_keywords =
     [(''enthusiasm'', [''excited'', ''passionate'', ''love'', ''enjoy'', ''thrilled'', ''eager'']),
      (''confidence'', [''confident'', ''capable'', ''skilled'', ''experienced'', ''proficient'']),
      (''nervousness'', [''nervous'', ''worried'', ''anxious'', ''uncertain'', ''hesitant'']),
      (''professionalism'',
         [''professional'', ''responsible'', ''reliable'', ''dedicated'', ''committed'']),
      (''curiosity'', [''interested'', ''curious'', ''learn'', ''explore'', ''discover''])]"

definition emotion_scores :: "string \<Rightarrow> (string \<times> int) list" where
  "emotion_scores text = map (\<lambda>(emotion, keywords). (emotion, count_hits keywords text)) emotion_keywords"

text \<open>\<open>sum(emotion_scores.values()) or 1\<close>.\<close>

definition total_emotion_score :: "string \<Rightarrow> int" where
  "total_emotion_score text =
     (let s = (\<Sum>(emotion, score)\<leftarrow>emotion_scores text. score)
      in if s = 0 then 1 else s)"

text \<open>\<open>int((score / total_emotion_score) * 100)\<close>.\<close>

definition percentage :: "int \<Rightarrow> int \<Rightarrow> int option" where
  "percentage score total_score = do { q \<leftarrow> truediv score total_score; Some (py_int (fl (q * 100))) }"

fun emotion_percentages_of :: "(string \<times> int) list \<Rightarrow> int \<Rightarrow> (string \<times> int) list option" where
  "emotion_percentages_of [] total_score = Some []"
| "emotion_percentages_of ((emotion, score) # rest) total_score =
     do { p \<leftarrow> percentage score total_score;
          ps \<leftarrow> emotion_percentages_of rest total_score;
          Some ((emotion, p) # ps) }"

text \<open>
  \<open>max(d, key=d.get)\<close>: the keys are visited in insertion order and the best one is
  replaced only by a strictly larger value; on an empty dict \<open>max\<close> raises.
\<close>

fun max_key_from :: "string \<times> int \<Rightarrow> (string \<times> int) list \<Rightarrow> string" where
  "max_key_from (bk, bv) [] = bk"
| "max_key_from (bk, bv) ((k, v) # rest) =
     (if bv < v then max_key_from (k, v) rest else max_key_from (bk, bv) rest)"

definition max_key :: "(string \<times> int) list \<Rightarrow> string option" where
  "max_key d = (case d of [] \<Rightarrow> None | kv # rest \<Rightarrow> Some (max_key_from kv rest))"

definition basic_polarity :: "string \<Rightarrow> rat option" where
  "basic_polarity text =
     (let positive_count = int (length (filter (\<lambda>word. py_in word (lower text)) positive_words));
          negative_count = int (length (filter (\<lambda>word. py_in word (lower text)) negative_words));
          total_sentiment_words = positive_count + negative_count
      in if total_sentiment_words > 0
         then truediv (positive_count - negative_count) total_sentiment_words
         else Some (fl (1 / 10)))"

definition analyze_sentiment_emotions ::
  "bool \<Rightarrow> (string \<Rightarrow> (rat \<times> rat) option) \<Rightarrow> string \<Rightarrow> sentiment_metrics option" where
  "analyze_sentiment_emotions ADVANCED_FEATURES textblob text =
     do {
       (pol, subj) \<leftarrow>
         (if ADVANCED_FEATURES
          then (case textblob text of
                  Some (p, s) \<Rightarrow> Some (p, s)
                | None \<Rightarrow> Some (fl (2 / 10), fl (5 / 10)))
          else do { p \<leftarrow> basic_polarity text; Some (p, fl (6 / 10)) });
       emotion_percentages \<leftarrow> emotion_percentages_of (emotion_scores text) (total_emotion_score text);
       let sentiment = (if fl (3 / 10) < pol then ''Positive''
                        else if pol < - fl (3 / 10) then ''Negative''
                        else ''Neutral'');
       dominant \<leftarrow> max_key emotion_percentages;
       Some \<lparr> overall_sentiment = sentiment,
              polarity = py_round_nd pol 2,
              subjectivity = py_round_nd subj 2,
              emotion_breakdown = emotion_percentages,
              dominant_emotion = dominant \<rparr>
     }"

section \<open>interview\_utils.py: feedback generator\<close>

definition generate_feedback ::
  "speech_metrics \<Rightarrow> sentiment_metrics \<Rightarrow> content_metrics \<Rightarrow> string list" where
  "generate_feedback speech sentiment content =
     (if confidence_score speech < 60
      then [''Practice speaking with more conviction. Use definitive statements like 'I can' instead of 'I think I can'.'']
      else if 85 < confidence_score speech
      then [''Great confidence level! You come across as self-assured and capable.'']
      else [])
     @ (if 20 < hesitation_rate speech
        then [''Try to reduce filler words (um, ah, like). Practice speaking more deliberately and pause instead of using fillers.'']
        else if hesitation_rate speech < 5
        then [''Excellent fluency! You speak clearly without unnecessary hesitation.'']
        else [])
     @ (if clarity_score speech < 70
        then [''Work on structuring your sentences better. Aim for 10-20 words per sentence for optimal clarity.'']
        else [])
     @ (if dominant_emotion sentiment = ''nervousness''
        then [''Try relaxation techniques before interviews to manage nerves. Deep breathing can help you sound more composed.'']
        else if dominant_emotion sentiment = ''enthusiasm''
        then [''Your enthusiasm comes through clearly! This positive energy is a great asset.'']
        else [])
     @ (if content_quality_score content < 50
        then [''Include more specific examples of your technical skills and work experience.'']
        else [])
     @ (if length (technical_skills_mentioned content) < 2
        then [''Mention more relevant technical skills that match the job requirements.'']
        else [])
     @ (if length (soft_skills_mentioned content) < 2
        then [''Highlight soft skills like teamwork, leadership, or problem-solving with specific examples.'']
        else [])
     @ (if overall_sentiment sentiment = ''Positive''
        then [''Maintain this positive attitude - it shows genuine interest in the role.'']
        else [])"

section \<open>The environment of the pipeline\<close>

text \<open>
  What the third-party libraries and the operating system do is a parameter of the model:
  the two module flags set by the guarded imports, and the outcome of each external call.
\<close>

datatype validation_failure =
    File_not_found string           \<comment> \<open>\<open>Video file not found: {path}\<close>\<close>
  | File_too_large rat int          \<comment> \<open>\<open>Video file too large: {size}MB (max: {max}MB)\<close>\<close>
  | Unsupported_format string       \<comment> \<open>\<open>Unsupported video format: {ext}. Supported formats: ...\<close>\<close>
  | Corrupted_or_unreadable string  \<comment> \<open>\<open>Video file corrupted or unreadable: {error}\<close>\<close>
  | Video_too_long rat int          \<comment> \<open>\<open>Video too long: {duration}s (max: {max}s)\<close>\<close>
  | Empty_or_corrupted              \<comment> \<open>\<open>Video file appears to be empty or corrupted\<close>\<close>

datatype py_exn =
    UnknownValueError
  | RequestError string
  | Exception string
  | AnalyzerRaised
  | VideoValidationError validation_failure
  | AudioExtractionError string

text \<open>The outcome of opening an audio file, recording it and calling the recognizer.\<close>

datatype recognition = Recognized string | Recognition_raises py_exn

text \<open>
  The outcome of \<open>cv2.VideoCapture\<close> and its property reads: an exception, a capture that
  is not opened, or the frame rate, frame count, width and height.
\<close>

datatype cv2_capture = Capture_raises string | Not_opened | Opened rat rat int int

text \<open>
  The outcome of one extraction tool (MoviePy or ffmpeg) asked to write an audio file:
  it wrote the file, it returned without leaving a file, or it raised.
\<close>

datatype extraction = Wrote_file | Wrote_nothing | Extraction_raises string

record env =
  ADVANCED_FEATURES :: bool
  VIDEO_PROCESSING_AVAILABLE :: bool
  textblob :: "string \<Rightarrow> (rat \<times> rat) option"
  pydub_converts :: "string \<Rightarrow> bool"
  recognize :: "string \<Rightarrow> recognition"
  cv2_probe :: "string \<Rightarrow> cv2_capture"
  moviepy :: "string \<Rightarrow> extraction"
  ffmpeg :: "string \<Rightarrow> extraction"
  mkdtemp_name :: string
  file_size :: "string \<Rightarrow> int option"

text \<open>
  The file system maps a path to the kind of node found there. A directory's entries are
  the paths one component below it.
\<close>

datatype node = Dir | File

type_synonym filesystem = "string \<Rightarrow> node option"

definition is_child :: "string \<Rightarrow> string \<Rightarrow> bool" where
  "is_child d p =
     (startswith p (d @ ''/'')
      \<and> (let name = drop (length d + 1) p in name \<noteq> [] \<and> CHR ''/'' \<notin> set name))"

text \<open>\<open>os.path.basename\<close> and \<open>os.path.join\<close> (for a relative second part).\<close>

definition basename :: "string \<Rightarrow> string" where
  "basename p = last (split_on CHR ''/'' p)"

definition path_join :: "string \<Rightarrow> string \<Rightarrow> string" where
  "path_join a b = (if a = [] \<or> last a = CHR ''/'' then a @ b else a @ ''/'' @ b)"

text \<open>\<open>Path(p).stem\<close>: the name without its suffix.\<close>

definition path_stem :: "string \<Rightarrow> string" where
  "path_stem p =
     (let name = path_name p
      in case rfind CHR ''.'' name of
           None \<Rightarrow> name
         | Some i \<Rightarrow> if 0 < i \<and> i + 1 < length name then take i name else name)"

fun join :: "string \<Rightarrow> string list \<Rightarrow> string" where
  "join sep [] = []"
| "join sep [x] = x"
| "join sep (x # y # ys) = x @ sep @ join sep (y # ys)"

text \<open>\<open>str(e)\<close> for the exceptions whose message the code reads.\<close>

fun exn_message :: "py_exn \<Rightarrow> string" where
  "exn_message (Exception m) = m"
| "exn_message (RequestError m) = m"
| "exn_message (AudioExtractionError m) = m"
| "exn_message _ = []"

section \<open>video\_utils.py: probing, extraction and the video pipeline\<close>

record video_info =
  duration :: rat
  fps :: rat
  resolution :: "int \<times> int"
  frame_count :: int
  format :: string

text \<open>The dict returned by \<open>get_video_info\<close>: the metadata, or a dict with the key \<open>error\<close>.\<close>

datatype info_result = Info video_info | Info_error string

definition get_video_info :: "env \<Rightarrow> string \<Rightarrow> info_result" where
  "get_video_info e video_path =
     (if \<not> VIDEO_PROCESSING_AVAILABLE e
      then Info_error ''Video processing libraries not available''
      else case cv2_probe e video_path of
             Capture_raises m \<Rightarrow> Info_error (''Failed to get video info: '' @ m)
           | Not_opened \<Rightarrow> Info_error ''Could not open video file''
           | Opened rate frames width height \<Rightarrow>
               (let d = (if 0 < rate then fl (frames / rate) else 0)
                in Info \<lparr> duration = py_round_nd d 2,
                          fps = py_round_nd rate 2,
                          resolution = (width, height),
                          frame_count = py_int frames,
                          format = lower (path_suffix video_path) \<rparr>))"

definition default_audio_name :: "string \<Rightarrow> string" where
  "default_audio_name video_path = path_stem video_path @ ''_extracted_audio.wav''"

text \<open>The MoviePy strategy.\<close>

definition extract_audio_from_video ::
  "env \<Rightarrow> filesystem \<Rightarrow> string \<Rightarrow> string option \<Rightarrow> (py_exn + string) \<times> filesystem" where
  "extract_audio_from_video e fs video_path output_audio_path =
     (if \<not> VIDEO_PROCESSING_AVAILABLE e
      then (Inl (Exception ''Video processing libraries not installed. Please install moviepy and ffmpeg-python.''), fs)
      else let out = (case output_audio_path of
                        None \<Rightarrow> default_audio_name video_path | Some p \<Rightarrow> p)
           in case moviepy e video_path of
                Wrote_file \<Rightarrow> (Inr out, fs(out \<mapsto> File))
              | Wrote_nothing \<Rightarrow> (Inr out, fs)
              | Extraction_raises m \<Rightarrow> (Inl (Exception (''Audio extraction failed: '' @ m)), fs))"

text \<open>The ffmpeg strategy, with its fallback to MoviePy.\<close>

definition extract_audio_with_ffmpeg ::
  "env \<Rightarrow> filesystem \<Rightarrow> string \<Rightarrow> string option \<Rightarrow> (py_exn + string) \<times> filesystem" where
  "extract_audio_with_ffmpeg e fs video_path output_audio_path =
     (if \<not> VIDEO_PROCESSING_AVAILABLE e
      then (Inl (Exception ''FFmpeg not available''), fs)
      else let out = (case output_audio_path of
                        None \<Rightarrow> default_audio_name video_path | Some p \<Rightarrow> p)
           in case ffmpeg e video_path of
                Wrote_file \<Rightarrow> (Inr out, fs(out \<mapsto> File))
              | Wrote_nothing \<Rightarrow> (Inr out, fs)
              | Extraction_raises m \<Rightarrow> extract_audio_from_video e fs video_path (Some out))"

datatype video_result =
    Video_ok (audio_path: string) (info: video_info) (original_video: string) (temp_dir: string)
  | Video_failed (error: string) (partial_info: "info_result option")

definition process_video_for_interview_analysis ::
  "env \<Rightarrow> filesystem \<Rightarrow> string \<Rightarrow> string option \<Rightarrow> video_result \<times> filesystem" where
  "process_video_for_interview_analysis e fs video_path temp_dir_arg =
     (let (tmp, fs1) = (case temp_dir_arg of
                          None \<Rightarrow> (mkdtemp_name e, fs(mkdtemp_name e \<mapsto> Dir))
                        | Some d \<Rightarrow> (d, fs))
      in if \<not> is_video_file video_path
         then (Video_failed (''Unsupported video format. Supported formats: ''
                              @ join '', '' SUPPORTED_VIDEO_FORMATS) None, fs1)
         else case get_video_info e video_path of
                Info_error m \<Rightarrow> (Video_failed m (Some (Info_error m)), fs1)
              | Info vi \<Rightarrow>
                  if 600 < duration vi
                  then (Video_failed ''Video too long. Maximum duration: 600 seconds''
                          (Some (Info vi)), fs1)
                  else let audio_filename = ''extracted_audio_'' @ basename video_path @ ''.wav'';
                           target = path_join tmp audio_filename
                       in case extract_audio_from_video e fs1 video_path (Some target) of
                            (Inl x, fs2) \<Rightarrow> (Video_failed (exn_message x) (Some (Info vi)), fs2)
                          | (Inr extracted, fs2) \<Rightarrow>
                              if fs2 extracted = None
                              then (Video_failed ''Audio extraction completed but file not found''
                                      (Some (Info vi)), fs2)
                              else (Video_ok extracted vi video_path tmp, fs2))"

text \<open>
  \<open>cleanup_temp_files\<close>: every entry of the directory is removed (the \<open>.wav\<close> entries are
  kept when \<open>keep_audio\<close>), then the directory itself unless \<open>keep_audio\<close>. The function
  swallows every exception; the calls to the operating system are taken to succeed.
\<close>

definition cleanup_temp_files :: "filesystem \<Rightarrow> string \<Rightarrow> bool \<Rightarrow> filesystem" where
  "cleanup_temp_files fs tmp keep_audio =
     (if tmp \<noteq> [] \<and> fs tmp \<noteq> None
      then (\<lambda>p. if is_child tmp p \<and> \<not> (keep_audio \<and> endswith p ''.wav'') then None
                else if p = tmp \<and> \<not> keep_audio then None
                else fs p)
      else fs)"

section \<open>video\_error\_handling.py: validation\<close>

text \<open>
  The result dict of \<open>validate_video_file\<close>: the basic one (size and format, with the
  warning that the advanced validation was skipped) or the full one (size, duration,
  resolution, format, frame rate). \<open>file_size e p\<close> is the size in bytes of the file at
  \<open>p\<close>, \<open>None\<close> when no file exists there.
\<close>

datatype validation_result =
    Basic_validation rat string
  | Full_validation rat rat "int \<times> int" string rat

definition validate_video_file :: "env \<Rightarrow> string \<Rightarrow> int \<Rightarrow> int \<Rightarrow> py_exn + validation_result" where
  "validate_video_file e file_path max_size_mb max_duration_seconds =
     (case file_size e file_path of
        None \<Rightarrow> Inl (VideoValidationError (File_not_found file_path))
      | Some file_size_bytes \<Rightarrow>
          (let file_size_mb = fl (of_int file_size_bytes / (1024 * 1024))
           in if of_int max_size_mb < file_size_mb
              then Inl (VideoValidationError (File_too_large file_size_mb max_size_mb))
              else let file_ext = lower (path_suffix file_path)
                   in if file_ext \<notin> set SUPPORTED_VIDEO_FORMATS
                      then Inl (VideoValidationError (Unsupported_format file_ext))
                      else if \<not> VIDEO_PROCESSING_AVAILABLE e
                      then Inr (Basic_validation file_size_mb file_ext)
                      else case get_video_info e file_path of
                             Info_error m \<Rightarrow>
                               Inl (VideoValidationError (Corrupted_or_unreadable m))
                           | Info vi \<Rightarrow>
                               if of_int max_duration_seconds < duration vi
                               then Inl (VideoValidationError
                                           (Video_too_long (duration vi) max_duration_seconds))
                               else if duration vi < 1
                               then Inl (VideoValidationError Empty_or_corrupted)
                               else Inr (Full_validation file_size_mb (duration vi)
                                           (resolution vi) file_ext (fps vi))))"

section \<open>interview\_utils.py: transcription\<close>

text \<open>\<open>audio_path.rsplit('.', 1)[0]\<close>: the path up to its last dot, or all of it.\<close>

definition rsplit_dot_head :: "string \<Rightarrow> string" where
  "rsplit_dot_head p = (case rfind CHR ''.'' p of None \<Rightarrow> p | Some i \<Rightarrow> take i p)"

definition convert_audio_to_wav :: "env \<Rightarrow> string \<Rightarrow> string" where
  "convert_audio_to_wav e path =
     (if \<not> ADVANCED_FEATURES e then path
      else if pydub_converts e path then rsplit_dot_head path @ ''.wav''
      else path)"

definition demo_transcript :: string where
  "demo_transcript = ''hello my name is john and i am excited about this opportunity i have experience in python javascript and react i enjoy working with teams and solving complex problems um i have worked on several projects and i am confident in my abilities''"

definition mock_transcript :: string where
  "mock_transcript = ''hello my name is john and i am excited about this opportunity i have experience in python javascript and react i enjoy working with teams and solving complex problems''"

text \<open>The body of the \<open>try\<close> block of \<open>transcribe_audio\<close>; \<open>Inl\<close> is an exception leaving it.\<close>

definition transcribe_try :: "env \<Rightarrow> string \<Rightarrow> py_exn + string" where
  "transcribe_try e path =
     (let wav = (if \<not> endswith (lower path) ''.wav'' then convert_audio_to_wav e path else path)
      in case recognize e wav of
           Recognized text \<Rightarrow> Inr (lower text)
         | Recognition_raises x \<Rightarrow> Inl x)"

definition transcribe_audio :: "env \<Rightarrow> string \<Rightarrow> py_exn + string" where
  "transcribe_audio e path =
     (if \<not> ADVANCED_FEATURES e then Inr demo_transcript
      else case transcribe_try e path of
             Inr text \<Rightarrow> Inr text
           | Inl UnknownValueError \<Rightarrow> Inr ''Could not understand audio clearly''
           | Inl (RequestError m) \<Rightarrow> Inr (''Error with speech recognition service: '' @ m)
           | Inl _ \<Rightarrow> Inr mock_transcript)"

section \<open>interview\_utils.py: the orchestrator\<close>

datatype video_metadata =
    Audio_metadata                                \<comment> \<open>\<open>file_type = audio, audio_extracted = False\<close>\<close>
  | Video_metadata string rat "int \<times> int" rat  \<comment> \<open>format, duration, resolution, fps\<close>

record report =
  overall_score :: int
  transcript :: string
  speech_analysis :: speech_metrics
  sentiment_analysis :: sentiment_metrics
  content_analysis :: content_metrics
  feedback :: "string list"
  strengths :: "string list"
  areas_for_improvement :: "string list"
  recommendations :: "string list"
  video_metadata :: "video_metadata option"

text \<open>Lines 320 to 325: the weighted sum of four integer scores, in floats, through \<open>int\<close>.\<close>

definition weighted_score :: "int \<Rightarrow> int \<Rightarrow> int \<Rightarrow> int \<Rightarrow> rat" where
  "weighted_score confidence clarity hesitation content_quality =
     fl (fl (fl (fl (of_int confidence * fl (3 / 10)) + fl (of_int clarity * fl (25 / 100)))
             + fl (of_int (100 - hesitation) * fl (15 / 100)))
         + fl (of_int content_quality * fl (3 / 10)))"

definition compute_overall_score :: "int \<Rightarrow> int \<Rightarrow> int \<Rightarrow> int \<Rightarrow> int" where
  "compute_overall_score confidence clarity hesitation content_quality =
     py_int (weighted_score confidence clarity hesitation content_quality)"

definition fallback_report :: report where
  "fallback_report =
     \<lparr> overall_score = 78,
       transcript = ''Audio processing unavailable - using demo analysis'',
       speech_analysis =
         \<lparr> confidence_score = 78, clarity_score = 85, hesitation_rate = 12,
           filler_word_count = 3, total_words = 150, avg_sentence_length = fl (142 / 10) \<rparr>,
       sentiment_analysis =
         \<lparr> overall_sentiment = ''Positive'', polarity = fl (4 / 10), subjectivity = fl (6 / 10),
           emotion_breakdown =
             [(''enthusiasm'', 30), (''confidence'', 25), (''nervousness'', 15),
              (''professionalism'', 20), (''curiosity'', 10)],
           dominant_emotion = ''enthusiasm'' \<rparr>,
       content_analysis =
         \<lparr> content_quality_score = 75,
           technical_skills_mentioned = [''python'', ''javascript'', ''react''],
           soft_skills_mentioned = [''teamwork'', ''problem solving''],
           experience_indicators = 8,
           detailed_breakdown = None \<rparr>,
       feedback =
         [''Great enthusiasm and positive attitude'',
          ''Consider adding more specific technical examples'',
          ''Practice speaking with slightly less hesitation''],
       strengths = [''High confidence level'', ''Strong content quality''],
       areas_for_improvement = [''Reduce hesitation''],
       recommendations =
         [''Great enthusiasm and positive attitude'',
          ''Consider adding more specific technical examples'',
          ''Practice speaking with slightly less hesitation''],
       video_metadata = None \<rparr>"

text \<open>
  Steps 1 to 5 and the assembly of the result, for the audio at \<open>path\<close>. An analyzer
  that raises (\<open>None\<close>) leaves the block with an exception.
\<close>

definition analysis_steps :: "env \<Rightarrow> string \<Rightarrow> video_info option \<Rightarrow> py_exn + report" where
  "analysis_steps e path vinfo =
     (case transcribe_audio e path of
        Inl x \<Rightarrow> Inl x
      | Inr text \<Rightarrow>
         (case analyze_speech_patterns text of
            None \<Rightarrow> Inl AnalyzerRaised
          | Some speech \<Rightarrow>
             (case analyze_sentiment_emotions (ADVANCED_FEATURES e) (textblob e) text of
                None \<Rightarrow> Inl AnalyzerRaised
              | Some sentiment \<Rightarrow>
                 (let content = analyze_content_quality text;
                      fb = generate_feedback speech sentiment content;
                      score = compute_overall_score (confidence_score speech) (clarity_score speech)
                                (hesitation_rate speech) (content_quality_score content)
                  in Inr \<lparr> overall_score = score,
                           transcript = text,
                           speech_analysis = speech,
                           sentiment_analysis = sentiment,
                           content_analysis = content,
                           feedback = fb,
                           strengths =
                             (if 75 < confidence_score speech then [''High confidence level''] else [])
                             @ (if hesitation_rate speech < 10 then [''Fluent speaking''] else [])
                             @ (if 70 < content_quality_score content
                                then [''Strong content quality''] else []),
                           areas_for_improvement =
                             (if 75 < confidence_score speech then [] else [''Build confidence''])
                             @ (if hesitation_rate speech < 10 then [] else [''Reduce hesitation''])
                             @ (if 70 < content_quality_score content
                                then [] else [''Improve content depth'']),
                           recommendations = take 3 fb,
                           video_metadata =
                             Some (case vinfo of
                                     Some vi \<Rightarrow> Video_metadata (format vi) (duration vi)
                                                  (resolution vi) (fps vi)
                                   | None \<Rightarrow> Audio_metadata) \<rparr>))))"

text \<open>
  The \<open>try\<close> block of \<open>analyze_interview\<close>. It ends with the result or with an exception,
  and leaves the value of the local variable \<open>temp_dir\<close> (\<open>None\<close> until line 297 assigns
  it) and the file system as they are at that moment.
\<close>

definition analyze_interview_try ::
  "env \<Rightarrow> filesystem \<Rightarrow> string \<Rightarrow> (py_exn + report) \<times> string option \<times> filesystem" where
  "analyze_interview_try e fs file_path =
     (if VIDEO_PROCESSING_AVAILABLE e \<and> is_video_file file_path
      then (case process_video_for_interview_analysis e fs file_path None of
              (Video_failed m _, fs1) \<Rightarrow>
                (Inl (Exception (''Video processing failed: '' @ m)), None, fs1)
            | (Video_ok extracted vi _ tmp, fs1) \<Rightarrow>
                (case analysis_steps e extracted (Some vi) of
                   Inl x \<Rightarrow> (Inl x, Some tmp, fs1)
                 | Inr result \<Rightarrow>
                     (Inr result, Some tmp,
                      if tmp \<noteq> [] then cleanup_temp_files fs1 tmp False else fs1)))
      else (case analysis_steps e file_path None of
              Inl x \<Rightarrow> (Inl x, None, fs)
            | Inr result \<Rightarrow> (Inr result, None, fs)))"

text \<open>
  \<open>analyze_interview\<close> with its handler: on an exception the handler cleans up when the
  local \<open>temp_dir\<close> is set and non-empty, and returns the fallback report.
\<close>

definition analyze_interview :: "env \<Rightarrow> filesystem \<Rightarrow> string \<Rightarrow> report \<times> filesystem" where
  "analyze_interview e fs file_path =
     (case analyze_interview_try e fs file_path of
        (Inr result, _, fs1) \<Rightarrow> (result, fs1)
      | (Inl x, tmp, fs1) \<Rightarrow>
          (fallback_report,
           case tmp of
             Some d \<Rightarrow> if d \<noteq> [] then cleanup_temp_files fs1 d False else fs1
           | None \<Rightarrow> fs1))"

section \<open>The formulas as the specification words them\<close>

text \<open>
  These two definitions follow the specification, not the code, in exact arithmetic; the
  theorems compare the code with them. \<open>claimed_confidence h c u\<close> is
  \<open>clamp(0, 100, (80 - h) + 5c - 3u)\<close>. \<open>exact_weighted_sum\<close> is the weighted sum
  \<open>0.30 confidence + 0.25 clarity + 0.15 (100 - hesitation) + 0.30 content_quality\<close>, and
  \<open>claimed_overall_score\<close> rounds it to the nearest integer.
\<close>

definition claimed_confidence :: "rat \<Rightarrow> int \<Rightarrow> int \<Rightarrow> rat" where
  "claimed_confidence h c u = max 0 (min 100 ((80 - h) + 5 * of_int c - 3 * of_int u))"



text \<open>
  \<open>first_key_with_max d\<close> is the first key of \<open>d\<close>, in insertion order, whose value is at
  least every value of \<open>d\<close>; \<open>breakdown_sum\<close> is the sum of the percentages of a result.
\<close>

definition first_key_with_max :: "(string \<times> int) list \<Rightarrow> string option" where
  "first_key_with_max d =
     map_option fst (find (\<lambda>kv. list_all (\<lambda>kw. snd kw \<le> snd kv) d) d)"

definition breakdown_sum :: "sentiment_metrics \<Rightarrow> int" where
  "breakdown_sum s = sum_list (map snd (emotion_breakdown s))"

text \<open>The relative error bound of one float operation.\<close>

definition eps53 :: rat where
  "eps53 = 1 / 2 ^ 53"

section \<open>An environment and inputs for the worked examples\<close>

definition demo_env :: env where
  "demo_env =
     \<lparr> ADVANCED_FEATURES = True,
       VIDEO_PROCESSING_AVAILABLE = True,
       textblob = (\<lambda>t. Some (0, 0)),
       pydub_converts = (\<lambda>p. True),
       recognize = (\<lambda>p. Recognized ''I know Python''),
       cv2_probe = (\<lambda>p. Opened 30 15 640 480),
       moviepy = (\<lambda>p. Extraction_raises ''no audio track''),
       ffmpeg = (\<lambda>p. Wrote_file),
       mkdtemp_name = ''/tmp/tmpab12'',
       file_size = (\<lambda>p. Some 1048576) \<rparr>"

text \<open>
  Variants of the environment: a recognizer that raises a given exception, and a given
  outcome for each of the two extraction tools.
\<close>

definition failing_env :: "py_exn \<Rightarrow> env" where
  "failing_env x = demo_env\<lparr>recognize := (\<lambda>p. Recognition_raises x)\<rparr>"

definition tools_env :: "extraction \<Rightarrow> extraction \<Rightarrow> env" where
  "tools_env f m = demo_env\<lparr>ffmpeg := (\<lambda>p. f), moviepy := (\<lambda>p. m)\<rparr>"

section \<open>Properties of the string primitives\<close>

lemma lower_char_dot: "lower_char c = CHR ''.'' \<longleftrightarrow> c = CHR ''.''"
proof
  assume h: "lower_char c = CHR ''.''"
  show "c = CHR ''.''"
  proof (rule ccontr)
    assume ne: "c \<noteq> CHR ''.''"
    let ?n = "of_char c :: nat"
    have up: "(65 \<le> ?n \<and> ?n \<le> 90) \<or> (192 \<le> ?n \<and> ?n \<le> 222 \<and> ?n \<noteq> 215)"
      using h ne by (auto simp: lower_char_def Let_def split: if_splits)
    then have "lower_char c = char_of (?n + 32)"
      by (simp add: lower_char_def Let_def)
    with h have "(of_char (char_of (?n + 32)) :: nat) = of_char (CHR ''.'')" by simp
    then have "(?n + 32) mod 256 = 46" by simp
    with up show False by auto
  qed
next
  assume "c = CHR ''.''"
  then show "lower_char c = CHR ''.''" by (simp add: lower_char_def)
qed

lemma dot_in_lower: "CHR ''.'' \<in> set (lower s) \<longleftrightarrow> CHR ''.'' \<in> set s"
proof -
  have "CHR ''.'' \<in> lower_char ` set s \<longleftrightarrow> CHR ''.'' \<in> set s"
    using lower_char_dot by (metis image_iff)
  then show ?thesis by (simp add: lower_def)
qed

lemma formats_shape:
  assumes "f \<in> set SUPPORTED_VIDEO_FORMATS"
  shows "\<exists>r. f = CHR ''.'' # r \<and> r \<noteq> [] \<and> CHR ''.'' \<notin> set r"
  using assms by (auto simp: SUPPORTED_VIDEO_FORMATS_def)

lemma ext_shape:
  assumes "lower ext \<in> set SUPPORTED_VIDEO_FORMATS"
  shows "\<exists>r. ext = CHR ''.'' # r \<and> r \<noteq> [] \<and> CHR ''.'' \<notin> set r"
proof -
  from formats_shape [OF assms] obtain r where
    r: "lower ext = CHR ''.'' # r" "r \<noteq> []" "CHR ''.'' \<notin> set r" by blast
  then obtain c cs where e: "ext = c # cs" by (cases ext) (auto simp: lower_def)
  with r have c: "lower_char c = CHR ''.''" and cs: "lower cs = r" by (auto simp: lower_def)
  from c have "c = CHR ''.''" by (simp add: lower_char_dot)
  moreover from cs r have "cs \<noteq> []" by (auto simp: lower_def)
  moreover from cs r have "CHR ''.'' \<notin> set cs" using dot_in_lower [of cs] by simp
  ultimately show ?thesis using e by blast
qed

lemma rfind_append:
  assumes "ch \<notin> set r"
  shows "rfind ch (s @ ch # r) = Some (length s)"
proof -
  have "takeWhile (\<lambda>x. x \<noteq> ch) (rev r @ ch # rev s) = rev r"
    using assms by (simp add: takeWhile_append)
  then show ?thesis by (simp add: rfind_def)
qed

section \<open>Video detection by extension\<close>

lemma is_video_file_iff:
  "is_video_file p \<longleftrightarrow>
     (\<exists>stem ext. path_name p = stem @ ext \<and> stem \<noteq> []
        \<and> lower ext \<in> set SUPPORTED_VIDEO_FORMATS)"
proof
  assume v: "is_video_file p"
  let ?name = "path_name p"
  from v have m: "lower (path_suffix p) \<in> set SUPPORTED_VIDEO_FORMATS"
    by (simp add: is_video_file_def)
  then have ne: "path_suffix p \<noteq> []" by (auto simp: SUPPORTED_VIDEO_FORMATS_def lower_def)
  then obtain i where i: "rfind CHR ''.'' ?name = Some i" "0 < i" "i + 1 < length ?name"
    and s: "path_suffix p = drop i ?name"
    by (auto simp: path_suffix_def Let_def split: option.splits if_splits)
  have "?name = take i ?name @ drop i ?name" by simp
  moreover have "take i ?name \<noteq> []" using i by auto
  ultimately show "\<exists>stem ext. ?name = stem @ ext \<and> stem \<noteq> []
      \<and> lower ext \<in> set SUPPORTED_VIDEO_FORMATS"
    using m s by metis
next
  assume "\<exists>stem ext. path_name p = stem @ ext \<and> stem \<noteq> []
      \<and> lower ext \<in> set SUPPORTED_VIDEO_FORMATS"
  then obtain stem ext where n: "path_name p = stem @ ext" and st: "stem \<noteq> []"
    and m: "lower ext \<in> set SUPPORTED_VIDEO_FORMATS" by blast
  from ext_shape [OF m] obtain r where r: "ext = CHR ''.'' # r" "r \<noteq> []" "CHR ''.'' \<notin> set r"
    by blast
  have "rfind CHR ''.'' (path_name p) = Some (length stem)"
    using n r rfind_append by simp
  then have "path_suffix p = ext"
    using n r st by (simp add: path_suffix_def Let_def)
  with m show "is_video_file p" by (simp add: is_video_file_def)
qed

lemma is_video_file_examples:
  "is_video_file ''clip.MP4'' \<and> \<not> is_video_file ''voice.wav'' \<and> \<not> is_video_file ''notes.txt''"
  by code_simp

text \<open>
  Claim C9. \<open>is_video_file\<close> is true exactly when the lowercased suffix of the path is one
  of the eight supported extensions, that is, when the final path component is a
  non-empty stem followed by an extension that, compared without regard to case, is in
  the fixed set; \<open>clip.MP4\<close> is a video, \<open>voice.wav\<close> and \<open>notes.txt\<close> are not.
\<close>

theorem is_video_file_extension:
  "(is_video_file p \<longleftrightarrow> lower (path_suffix p) \<in> set SUPPORTED_VIDEO_FORMATS)
   \<and> (is_video_file p \<longleftrightarrow>
        (\<exists>stem ext. path_name p = stem @ ext \<and> stem \<noteq> []
           \<and> lower ext \<in> set SUPPORTED_VIDEO_FORMATS))
   \<and> set SUPPORTED_VIDEO_FORMATS =
        {''.mp4'', ''.avi'', ''.mov'', ''.mkv'', ''.webm'', ''.flv'', ''.wmv'', ''.m4v''}
   \<and> is_video_file ''clip.MP4'' \<and> \<not> is_video_file ''voice.wav''
   \<and> \<not> is_video_file ''notes.txt''"
proof -
  have "is_video_file p \<longleftrightarrow> lower (path_suffix p) \<in> set SUPPORTED_VIDEO_FORMATS"
    by (simp add: is_video_file_def)
  moreover have "set SUPPORTED_VIDEO_FORMATS =
        {''.mp4'', ''.avi'', ''.mov'', ''.mkv'', ''.webm'', ''.flv'', ''.wmv'', ''.m4v''}"
    by (simp add: SUPPORTED_VIDEO_FORMATS_def)
  ultimately show ?thesis
    using is_video_file_iff [of p] is_video_file_examples by blast
qed

theorem is_video_file_extension_witness: "is_video_file ''uploads/Interview.MoV''"
proof -
  have "path_name ''uploads/Interview.MoV'' = ''Interview'' @ ''.MoV'' \<and> ''Interview'' \<noteq> []
      \<and> lower ''.MoV'' \<in> set SUPPORTED_VIDEO_FORMATS"
    by code_simp
  then show ?thesis
    using is_video_file_extension [of "''uploads/Interview.MoV''"] by blast
qed

section \<open>The content analyzer\<close>

text \<open>
  Claim C8. The technical score is \<open>min(40, 8 \<times> matches)\<close>, the soft-skill score
  \<open>min(30, 6 \<times> matches)\<close>, the experience score \<open>min(30, 3 \<times> matches)\<close>, where the matches
  are the keywords of each list that occur in the lowercased transcript; the content
  quality score is the sum of the three, so at most 100.
\<close>

theorem analyze_content_quality_scores:
  "detailed_breakdown (analyze_content_quality text) =
     Some \<lparr> technical_score =
              min 40 (8 * int (length (technical_skills_mentioned (analyze_content_quality text)))),
            soft_skills_score =
              min 30 (6 * int (length (soft_skills_mentioned (analyze_content_quality text)))),
            experience_score =
              min 30 (3 * experience_indicators (analyze_content_quality text)) \<rparr>
   \<and> technical_skills_mentioned (analyze_content_quality text) =
       filter (\<lambda>k. py_in k (lower text)) technical_skills
   \<and> soft_skills_mentioned (analyze_content_quality text) =
       filter (\<lambda>k. py_in k (lower text)) soft_skills
   \<and> experience_indicators (analyze_content_quality text) =
       int (length (filter (\<lambda>k. py_in k (lower text)) experience_indicator_words))
   \<and> content_quality_score (analyze_content_quality text) =
       min 40 (8 * int (length (technical_skills_mentioned (analyze_content_quality text))))
       + min 30 (6 * int (length (soft_skills_mentioned (analyze_content_quality text))))
       + min 30 (3 * experience_indicators (analyze_content_quality text))
   \<and> content_quality_score (analyze_content_quality text) \<le> 100"
  by (simp add: analyze_content_quality_def Let_def mult.commute)

section \<open>Validation of a video file\<close>

lemma demo_probe:
  "get_video_info demo_env ''clip.mp4'' =
     Info \<lparr> duration = 1 / 2, fps = 30, resolution = (640, 480), frame_count = 15, format = ''.mp4'' \<rparr>"
  by code_simp

lemma demo_size: "fl (of_int 1048576 / (1024 * 1024)) \<le> 100"
  by code_simp

text \<open>
  Claim C10. With the default limits (100 MB, 600 s), a file that exists, is small enough,
  has a supported extension and is probed successfully with a duration below one second
  is rejected with the validation error \<open>Video file appears to be empty or corrupted\<close>.
\<close>

theorem validate_video_file_min_duration:
  assumes "file_size e p = Some n"
    and "fl (of_int n / (1024 * 1024)) \<le> 100"
    and "lower (path_suffix p) \<in> set SUPPORTED_VIDEO_FORMATS"
    and "VIDEO_PROCESSING_AVAILABLE e"
    and "get_video_info e p = Info vi"
    and "duration vi < 1"
  shows "validate_video_file e p 100 600 = Inl (VideoValidationError Empty_or_corrupted)"
  using assms by (simp add: validate_video_file_def Let_def)

theorem validate_video_file_min_duration_witness:
  "validate_video_file demo_env ''clip.mp4'' 100 600
     = Inl (VideoValidationError Empty_or_corrupted)"
proof -
  have 1: "file_size demo_env ''clip.mp4'' = Some 1048576" by (simp add: demo_env_def)
  have 3: "lower (path_suffix ''clip.mp4'') \<in> set SUPPORTED_VIDEO_FORMATS" by code_simp
  have 4: "VIDEO_PROCESSING_AVAILABLE demo_env" by (simp add: demo_env_def)
  have 6: "duration \<lparr> duration = 1 / 2, fps = 30, resolution = (640, 480), frame_count = 15,
                      format = ''.mp4'' \<rparr> < 1"
    by simp
  show ?thesis
    by (rule validate_video_file_min_duration [OF 1 demo_size 3 4 demo_probe 6])
qed

section \<open>Transcription\<close>

text \<open>
  Claim C7. Without the recognition backend \<open>transcribe_audio\<close> returns the fixed demo
  sentence. With it, the recognizer is called on the audio path (converted to WAV first
  unless the path already ends in \<open>.wav\<close>), and the function never raises: a recognized
  text is returned lowercased, \<open>UnknownValueError\<close> gives the sentence
  \<open>Could not understand audio clearly\<close>, \<open>RequestError\<close> gives
  \<open>Error with speech recognition service:\<close> followed by the error's message, and any
  other exception gives the mock transcript. So every call returns a text.
\<close>

theorem transcribe_audio_never_raises:
  "(\<not> ADVANCED_FEATURES e \<longrightarrow> transcribe_audio e p = Inr demo_transcript)
   \<and> (ADVANCED_FEATURES e
        \<and> recognize e (if endswith (lower p) ''.wav'' then p else convert_audio_to_wav e p)
            = Recognized r
        \<longrightarrow> transcribe_audio e p = Inr (lower r))
   \<and> (ADVANCED_FEATURES e
        \<and> recognize e (if endswith (lower p) ''.wav'' then p else convert_audio_to_wav e p)
            = Recognition_raises UnknownValueError
        \<longrightarrow> transcribe_audio e p = Inr ''Could not understand audio clearly'')
   \<and> (ADVANCED_FEATURES e
        \<and> recognize e (if endswith (lower p) ''.wav'' then p else convert_audio_to_wav e p)
            = Recognition_raises (RequestError m)
        \<longrightarrow> transcribe_audio e p = Inr (''Error with speech recognition service: '' @ m))
   \<and> (ADVANCED_FEATURES e
        \<and> recognize e (if endswith (lower p) ''.wav'' then p else convert_audio_to_wav e p)
            = Recognition_raises x
        \<and> x \<noteq> UnknownValueError \<and> (\<forall>m'. x \<noteq> RequestError m')
        \<longrightarrow> transcribe_audio e p = Inr mock_transcript)
   \<and> (\<exists>t. transcribe_audio e p = Inr t
          \<and> (t = demo_transcript \<or> t = mock_transcript
             \<or> t = ''Could not understand audio clearly''
             \<or> (\<exists>m. t = ''Error with speech recognition service: '' @ m)
             \<or> (\<exists>r. t = lower r)))"
proof -
  let ?w = "if endswith (lower p) ''.wav'' then p else convert_audio_to_wav e p"
  have tt: "transcribe_try e p =
      (case recognize e ?w of Recognized text \<Rightarrow> Inr (lower text)
                            | Recognition_raises y \<Rightarrow> Inl y)"
    by (simp add: transcribe_try_def Let_def)
  have 1: "\<not> ADVANCED_FEATURES e \<longrightarrow> transcribe_audio e p = Inr demo_transcript"
    by (simp add: transcribe_audio_def)
  have 2: "ADVANCED_FEATURES e \<and> recognize e ?w = Recognized r
        \<longrightarrow> transcribe_audio e p = Inr (lower r)"
    by (simp add: transcribe_audio_def tt)
  have 3: "ADVANCED_FEATURES e \<and> recognize e ?w = Recognition_raises UnknownValueError
        \<longrightarrow> transcribe_audio e p = Inr ''Could not understand audio clearly''"
    by (simp add: transcribe_audio_def tt)
  have 4: "ADVANCED_FEATURES e \<and> recognize e ?w = Recognition_raises (RequestError m)
        \<longrightarrow> transcribe_audio e p = Inr (''Error with speech recognition service: '' @ m)"
    by (simp add: transcribe_audio_def tt)
  have 5: "ADVANCED_FEATURES e \<and> recognize e ?w = Recognition_raises x
        \<and> x \<noteq> UnknownValueError \<and> (\<forall>m'. x \<noteq> RequestError m')
        \<longrightarrow> transcribe_audio e p = Inr mock_transcript"
    by (cases x) (simp_all add: transcribe_audio_def tt)
  have 6: "\<exists>t. transcribe_audio e p = Inr t
          \<and> (t = demo_transcript \<or> t = mock_transcript
             \<or> t = ''Could not understand audio clearly''
             \<or> (\<exists>m. t = ''Error with speech recognition service: '' @ m)
             \<or> (\<exists>r. t = lower r))"
  proof (cases "ADVANCED_FEATURES e")
    case False
    then show ?thesis by (simp add: transcribe_audio_def)
  next
    case True
    show ?thesis
    proof (cases "recognize e ?w")
      case (Recognized r')
      with True have "transcribe_audio e p = Inr (lower r')"
        by (simp add: transcribe_audio_def tt)
      then show ?thesis by blast
    next
      case (Recognition_raises y)
      with True show ?thesis
        by (cases y) (simp_all add: transcribe_audio_def tt)
    qed
  qed
  from 1 2 3 4 5 6 show ?thesis by (intro conjI)
qed

theorem transcribe_audio_never_raises_witness:
  "transcribe_audio (demo_env\<lparr>ADVANCED_FEATURES := False\<rparr>) ''answer.wav'' = Inr demo_transcript
   \<and> transcribe_audio demo_env ''answer.mp3'' = Inr ''i know python''
   \<and> transcribe_audio (failing_env UnknownValueError) ''answer.wav''
       = Inr ''Could not understand audio clearly''
   \<and> transcribe_audio (failing_env (RequestError ''timeout'')) ''answer.wav''
       = Inr ''Error with speech recognition service: timeout''
   \<and> transcribe_audio (failing_env (Exception ''no such file'')) ''answer.wav''
       = Inr mock_transcript"
proof -
  have a: "transcribe_audio (demo_env\<lparr>ADVANCED_FEATURES := False\<rparr>) ''answer.wav''
      = Inr demo_transcript"
    using transcribe_audio_never_raises
      [of "demo_env\<lparr>ADVANCED_FEATURES := False\<rparr>" "''answer.wav''"]
    by (simp add: demo_env_def)
  have b: "transcribe_audio demo_env ''answer.mp3'' = Inr (lower ''I know Python'')"
    using transcribe_audio_never_raises
      [where e = demo_env and p = "''answer.mp3''" and r = "''I know Python''"]
    by (simp add: demo_env_def)
  have b': "lower ''I know Python'' = ''i know python''" by code_simp
  have c: "transcribe_audio (failing_env UnknownValueError) ''answer.wav''
       = Inr ''Could not understand audio clearly''"
    using transcribe_audio_never_raises
      [where e = "failing_env UnknownValueError" and p = "''answer.wav''"]
    by (simp add: failing_env_def demo_env_def)
  have d: "transcribe_audio (failing_env (RequestError ''timeout'')) ''answer.wav''
       = Inr (''Error with speech recognition service: '' @ ''timeout'')"
    using transcribe_audio_never_raises
      [where e = "failing_env (RequestError ''timeout'')" and p = "''answer.wav''"
         and m = "''timeout''"]
    by (simp add: failing_env_def demo_env_def)
  have f: "transcribe_audio (failing_env (Exception ''no such file'')) ''answer.wav''
       = Inr mock_transcript"
    using transcribe_audio_never_raises
      [where e = "failing_env (Exception ''no such file'')" and p = "''answer.wav''"
         and x = "Exception ''no such file''"]
    by (simp add: failing_env_def demo_env_def)
  from a b b' c d f show ?thesis by simp
qed

section \<open>The two extraction strategies\<close>

text \<open>
  Claim C5, as stated, fails on the pipeline: with an ffmpeg that would write the audio
  and a MoviePy that raises, \<open>extract_audio_with_ffmpeg\<close> succeeds, but
  \<open>process_video_for_interview_analysis\<close> reports the MoviePy failure at once.
\<close>

theorem pipeline_ignores_ffmpeg_counterexample:
  "ffmpeg demo_env ''clip.mp4'' = Wrote_file
   \<and> fst (extract_audio_with_ffmpeg demo_env Map.empty ''clip.mp4'' (Some ''/tmp/tmpab12/a.wav''))
       = Inr ''/tmp/tmpab12/a.wav''
   \<and> fst (process_video_for_interview_analysis demo_env Map.empty ''clip.mp4'' None)
       = Video_failed ''Audio extraction failed: no audio track''
           (Some (Info \<lparr> duration = 1 / 2, fps = 30, resolution = (640, 480),
                          frame_count = 15, format = ''.mp4'' \<rparr>))"
  by code_simp

text \<open>
  Claim C5, amended. With the video libraries loaded, \<open>extract_audio_with_ffmpeg\<close> tries
  ffmpeg first: when ffmpeg does not raise, its outcome is the result, whatever MoviePy
  would do; when ffmpeg raises, the result is that of the MoviePy strategy
  \<open>extract_audio_from_video\<close> on the same output path. So it raises only when both
  strategies raise (without the libraries it raises at once). The video pipeline does
  not use it: its result does not depend on what ffmpeg would do, it fails as soon as
  the MoviePy strategy raises and succeeds when MoviePy writes the file.
\<close>

theorem extraction_strategies:
  "(VIDEO_PROCESSING_AVAILABLE e \<and> ffmpeg e v = Wrote_file \<longrightarrow>
      extract_audio_with_ffmpeg e fs v out =
        (Inr (case out of None \<Rightarrow> default_audio_name v | Some a \<Rightarrow> a),
         fs((case out of None \<Rightarrow> default_audio_name v | Some a \<Rightarrow> a) \<mapsto> File)))
   \<and> (VIDEO_PROCESSING_AVAILABLE e \<and> ffmpeg e v = Wrote_nothing \<longrightarrow>
      extract_audio_with_ffmpeg e fs v out =
        (Inr (case out of None \<Rightarrow> default_audio_name v | Some a \<Rightarrow> a), fs))
   \<and> (VIDEO_PROCESSING_AVAILABLE e \<and> ffmpeg e v = Extraction_raises m1 \<longrightarrow>
      extract_audio_with_ffmpeg e fs v out =
        extract_audio_from_video e fs v
          (Some (case out of None \<Rightarrow> default_audio_name v | Some a \<Rightarrow> a)))
   \<and> (\<not> VIDEO_PROCESSING_AVAILABLE e \<longrightarrow>
      extract_audio_with_ffmpeg e fs v out = (Inl (Exception ''FFmpeg not available''), fs))
   \<and> (VIDEO_PROCESSING_AVAILABLE e \<and> moviepy e v = Wrote_file \<longrightarrow>
      extract_audio_from_video e fs v (Some tgt) = (Inr tgt, fs(tgt \<mapsto> File)))
   \<and> (VIDEO_PROCESSING_AVAILABLE e \<and> moviepy e v = Wrote_nothing \<longrightarrow>
      extract_audio_from_video e fs v (Some tgt) = (Inr tgt, fs))
   \<and> (VIDEO_PROCESSING_AVAILABLE e \<and> moviepy e v = Extraction_raises m \<longrightarrow>
      extract_audio_from_video e fs v (Some tgt) =
        (Inl (Exception (''Audio extraction failed: '' @ m)), fs))
   \<and> (VIDEO_PROCESSING_AVAILABLE e \<longrightarrow>
      ((\<exists>x. fst (extract_audio_with_ffmpeg e fs v out) = Inl x) \<longleftrightarrow>
       ((\<exists>m. ffmpeg e v = Extraction_raises m) \<and> (\<exists>m. moviepy e v = Extraction_raises m))))
   \<and> process_video_for_interview_analysis (e\<lparr>ffmpeg := f\<rparr>) fs v t
       = process_video_for_interview_analysis e fs v t
   \<and> (is_video_file v \<and> get_video_info e v = Info vi \<and> duration vi \<le> 600
        \<and> moviepy e v = Extraction_raises m \<longrightarrow>
      fst (process_video_for_interview_analysis e fs v t)
        = Video_failed (''Audio extraction failed: '' @ m) (Some (Info vi)))
   \<and> (is_video_file v \<and> get_video_info e v = Info vi \<and> duration vi \<le> 600
        \<and> moviepy e v = Wrote_file \<longrightarrow>
      fst (process_video_for_interview_analysis e fs v None)
        = Video_ok (path_join (mkdtemp_name e) (''extracted_audio_'' @ basename v @ ''.wav''))
            vi v (mkdtemp_name e))"
proof -
  let ?o = "case out of None \<Rightarrow> default_audio_name v | Some a \<Rightarrow> a"
  have 1: "VIDEO_PROCESSING_AVAILABLE e \<and> ffmpeg e v = Wrote_file \<longrightarrow>
      extract_audio_with_ffmpeg e fs v out = (Inr ?o, fs(?o \<mapsto> File))"
    by (simp add: extract_audio_with_ffmpeg_def Let_def)
  have 2: "VIDEO_PROCESSING_AVAILABLE e \<and> ffmpeg e v = Wrote_nothing \<longrightarrow>
      extract_audio_with_ffmpeg e fs v out = (Inr ?o, fs)"
    by (simp add: extract_audio_with_ffmpeg_def Let_def)
  have 3: "VIDEO_PROCESSING_AVAILABLE e \<and> ffmpeg e v = Extraction_raises m1 \<longrightarrow>
      extract_audio_with_ffmpeg e fs v out = extract_audio_from_video e fs v (Some ?o)"
    by (simp add: extract_audio_with_ffmpeg_def Let_def)
  have 4: "\<not> VIDEO_PROCESSING_AVAILABLE e \<longrightarrow>
      extract_audio_with_ffmpeg e fs v out = (Inl (Exception ''FFmpeg not available''), fs)"
    by (simp add: extract_audio_with_ffmpeg_def)
  have 5: "VIDEO_PROCESSING_AVAILABLE e \<and> moviepy e v = Wrote_file \<longrightarrow>
      extract_audio_from_video e fs v (Some tgt) = (Inr tgt, fs(tgt \<mapsto> File))"
    by (simp add: extract_audio_from_video_def)
  have 6: "VIDEO_PROCESSING_AVAILABLE e \<and> moviepy e v = Wrote_nothing \<longrightarrow>
      extract_audio_from_video e fs v (Some tgt) = (Inr tgt, fs)"
    by (simp add: extract_audio_from_video_def)
  have 7: "VIDEO_PROCESSING_AVAILABLE e \<and> moviepy e v = Extraction_raises m \<longrightarrow>
      extract_audio_from_video e fs v (Some tgt) =
        (Inl (Exception (''Audio extraction failed: '' @ m)), fs)"
    by (simp add: extract_audio_from_video_def)
  have 8: "VIDEO_PROCESSING_AVAILABLE e \<longrightarrow>
      ((\<exists>x. fst (extract_audio_with_ffmpeg e fs v out) = Inl x) \<longleftrightarrow>
       ((\<exists>m. ffmpeg e v = Extraction_raises m) \<and> (\<exists>m. moviepy e v = Extraction_raises m)))"
    by (cases "ffmpeg e v"; cases "moviepy e v")
       (simp_all add: extract_audio_with_ffmpeg_def extract_audio_from_video_def Let_def)
  have g: "get_video_info (e\<lparr>ffmpeg := f\<rparr>) v = get_video_info e v"
    by (simp add: get_video_info_def)
  have x: "\<And>fs' out. extract_audio_from_video (e\<lparr>ffmpeg := f\<rparr>) fs' v out
              = extract_audio_from_video e fs' v out"
    by (simp add: extract_audio_from_video_def)
  have 9: "process_video_for_interview_analysis (e\<lparr>ffmpeg := f\<rparr>) fs v t
       = process_video_for_interview_analysis e fs v t"
    by (simp add: process_video_for_interview_analysis_def g x
          cong: if_cong option.case_cong info_result.case_cong)
  have 10: "is_video_file v \<and> get_video_info e v = Info vi \<and> duration vi \<le> 600
        \<and> moviepy e v = Extraction_raises m \<longrightarrow>
      fst (process_video_for_interview_analysis e fs v t)
        = Video_failed (''Audio extraction failed: '' @ m) (Some (Info vi))"
  proof
    assume a: "is_video_file v \<and> get_video_info e v = Info vi \<and> duration vi \<le> 600
        \<and> moviepy e v = Extraction_raises m"
    then have av: "VIDEO_PROCESSING_AVAILABLE e"
      by (auto simp: get_video_info_def split: if_splits)
    show "fst (process_video_for_interview_analysis e fs v t)
        = Video_failed (''Audio extraction failed: '' @ m) (Some (Info vi))"
      using a av
      by (cases t)
         (simp_all add: process_video_for_interview_analysis_def extract_audio_from_video_def
            Let_def)
  qed
  have 11: "is_video_file v \<and> get_video_info e v = Info vi \<and> duration vi \<le> 600
        \<and> moviepy e v = Wrote_file \<longrightarrow>
      fst (process_video_for_interview_analysis e fs v None)
        = Video_ok (path_join (mkdtemp_name e) (''extracted_audio_'' @ basename v @ ''.wav''))
            vi v (mkdtemp_name e)"
  proof
    assume a: "is_video_file v \<and> get_video_info e v = Info vi \<and> duration vi \<le> 600
        \<and> moviepy e v = Wrote_file"
    then have av: "VIDEO_PROCESSING_AVAILABLE e"
      by (auto simp: get_video_info_def split: if_splits)
    show "fst (process_video_for_interview_analysis e fs v None)
        = Video_ok (path_join (mkdtemp_name e) (''extracted_audio_'' @ basename v @ ''.wav''))
            vi v (mkdtemp_name e)"
      using a av
      by (simp add: process_video_for_interview_analysis_def extract_audio_from_video_def Let_def)
  qed
  from 1 2 3 4 5 6 7 8 9 10 11 show ?thesis by (intro conjI)
qed

lemma demo_probe2:
  "get_video_info (tools_env f m) ''clip.mp4'' =
     Info \<lparr> duration = 1 / 2, fps = 30, resolution = (640, 480), frame_count = 15,
            format = ''.mp4'' \<rparr>"
  using demo_probe by (simp add: get_video_info_def tools_env_def demo_env_def)

theorem extraction_strategies_witness:
  "extract_audio_with_ffmpeg (tools_env Wrote_file (Extraction_raises ''no audio track''))
       Map.empty ''clip.mp4'' (Some ''out.wav'')
     = (Inr ''out.wav'', [''out.wav'' \<mapsto> File])
   \<and> extract_audio_with_ffmpeg (tools_env Wrote_nothing Wrote_file)
       Map.empty ''clip.mp4'' (Some ''out.wav'')
     = (Inr ''out.wav'', Map.empty)
   \<and> extract_audio_with_ffmpeg (tools_env (Extraction_raises ''bad codec'') Wrote_file)
       Map.empty ''clip.mp4'' (Some ''out.wav'')
     = (Inr ''out.wav'', [''out.wav'' \<mapsto> File])
   \<and> extract_audio_with_ffmpeg
       (tools_env (Extraction_raises ''bad codec'') (Extraction_raises ''no audio track''))
       Map.empty ''clip.mp4'' (Some ''out.wav'')
     = (Inl (Exception ''Audio extraction failed: no audio track''), Map.empty)
   \<and> fst (process_video_for_interview_analysis
            (tools_env Wrote_file (Extraction_raises ''no audio track''))
            Map.empty ''clip.mp4'' None)
       = Video_failed ''Audio extraction failed: no audio track''
           (Some (Info \<lparr> duration = 1 / 2, fps = 30, resolution = (640, 480),
                          frame_count = 15, format = ''.mp4'' \<rparr>))
   \<and> fst (process_video_for_interview_analysis
            (tools_env (Extraction_raises ''bad codec'') Wrote_file)
            Map.empty ''clip.mp4'' None)
       = Video_ok ''/tmp/tmpab12/extracted_audio_clip.mp4.wav''
           \<lparr> duration = 1 / 2, fps = 30, resolution = (640, 480),
             frame_count = 15, format = ''.mp4'' \<rparr> ''clip.mp4'' ''/tmp/tmpab12''"
proof -
  let ?vi = "\<lparr> duration = 1 / 2, fps = 30, resolution = (640, 480), frame_count = 15,
              format = ''.mp4'' \<rparr>"
  have v: "is_video_file ''clip.mp4''" by code_simp
  have d: "duration ?vi \<le> 600" by simp
  have j: "path_join ''/tmp/tmpab12'' (''extracted_audio_'' @ basename ''clip.mp4'' @ ''.wav'')
      = ''/tmp/tmpab12/extracted_audio_clip.mp4.wav''" by code_simp
  have a: "extract_audio_with_ffmpeg (tools_env Wrote_file (Extraction_raises ''no audio track''))
       Map.empty ''clip.mp4'' (Some ''out.wav'') = (Inr ''out.wav'', [''out.wav'' \<mapsto> File])"
    using extraction_strategies
      [where e = "tools_env Wrote_file (Extraction_raises ''no audio track'')"
         and fs = Map.empty and v = "''clip.mp4''" and out = "Some ''out.wav''"]
    by (simp add: tools_env_def demo_env_def)
  have b: "extract_audio_with_ffmpeg (tools_env Wrote_nothing Wrote_file)
       Map.empty ''clip.mp4'' (Some ''out.wav'') = (Inr ''out.wav'', Map.empty)"
    using extraction_strategies
      [where e = "tools_env Wrote_nothing Wrote_file"
         and fs = Map.empty and v = "''clip.mp4''" and out = "Some ''out.wav''"]
    by (simp add: tools_env_def demo_env_def)
  have c: "extract_audio_with_ffmpeg (tools_env (Extraction_raises ''bad codec'') Wrote_file)
       Map.empty ''clip.mp4'' (Some ''out.wav'') = (Inr ''out.wav'', [''out.wav'' \<mapsto> File])"
    using extraction_strategies
      [where e = "tools_env (Extraction_raises ''bad codec'') Wrote_file"
         and fs = Map.empty and v = "''clip.mp4''" and out = "Some ''out.wav''"
         and ?m1.0 = "''bad codec''" and tgt = "''out.wav''"]
    by (simp add: tools_env_def demo_env_def)
  have c': "extract_audio_with_ffmpeg
       (tools_env (Extraction_raises ''bad codec'') (Extraction_raises ''no audio track''))
       Map.empty ''clip.mp4'' (Some ''out.wav'')
     = (Inl (Exception (''Audio extraction failed: '' @ ''no audio track'')), Map.empty)"
    using extraction_strategies
      [where e = "tools_env (Extraction_raises ''bad codec'') (Extraction_raises ''no audio track'')"
         and fs = Map.empty and v = "''clip.mp4''" and out = "Some ''out.wav''"
         and ?m1.0 = "''bad codec''" and tgt = "''out.wav''" and m = "''no audio track''"]
    by (simp add: tools_env_def demo_env_def)
  have p1: "fst (process_video_for_interview_analysis
            (tools_env Wrote_file (Extraction_raises ''no audio track''))
            Map.empty ''clip.mp4'' None)
       = Video_failed (''Audio extraction failed: '' @ ''no audio track'') (Some (Info ?vi))"
    using extraction_strategies
      [where e = "tools_env Wrote_file (Extraction_raises ''no audio track'')"
         and fs = Map.empty and v = "''clip.mp4''" and t = None and vi = ?vi
         and m = "''no audio track''"]
      v d demo_probe2 [of Wrote_file "Extraction_raises ''no audio track''"]
    by (simp add: tools_env_def demo_env_def)
  have p2: "fst (process_video_for_interview_analysis
            (tools_env (Extraction_raises ''bad codec'') Wrote_file)
            Map.empty ''clip.mp4'' None)
       = Video_ok (path_join (mkdtemp_name (tools_env (Extraction_raises ''bad codec'') Wrote_file))
                     (''extracted_audio_'' @ basename ''clip.mp4'' @ ''.wav''))
            ?vi ''clip.mp4'' (mkdtemp_name (tools_env (Extraction_raises ''bad codec'') Wrote_file))"
    using extraction_strategies
      [where e = "tools_env (Extraction_raises ''bad codec'') Wrote_file"
         and fs = Map.empty and v = "''clip.mp4''" and vi = ?vi]
      v d demo_probe2 [of "Extraction_raises ''bad codec''" Wrote_file]
    by (simp add: tools_env_def demo_env_def)
  have mk: "mkdtemp_name (tools_env (Extraction_raises ''bad codec'') Wrote_file) = ''/tmp/tmpab12''"
    by (simp add: tools_env_def demo_env_def)
  from a b c c' p1 p2 show ?thesis unfolding mk j by simp
qed

section \<open>The orchestrator's handler and the temporary directory\<close>

text \<open>
  The handler returns the fallback report for every exception that leaves the \<open>try\<close>
  block, and a successful run removes the temporary directory. When the video pipeline
  fails, however, the directory it created stays: the failure result carries no
  \<open>temp_dir\<close>, so the handler has nothing to clean up.
\<close>

lemma process_video_failed_keeps_dir:
  assumes "process_video_for_interview_analysis e fs p None = (Video_failed m i, fs1)"
  shows "fs1 (mkdtemp_name e) = Some Dir"
  using assms
  by (auto simp: process_video_for_interview_analysis_def extract_audio_from_video_def Let_def
           split: if_splits info_result.splits extraction.splits)

lemma video_failure_leaks_temp_dir:
  assumes "VIDEO_PROCESSING_AVAILABLE e" "is_video_file p"
    and "process_video_for_interview_analysis e fs p None = (Video_failed m i, fs1)"
  shows "analyze_interview e fs p = (fallback_report, fs1) \<and> fs1 (mkdtemp_name e) = Some Dir"
  using assms process_video_failed_keeps_dir [OF assms(3)]
  by (simp add: analyze_interview_def analyze_interview_try_def)

lemma handler_returns_fallback:
  assumes "analyze_interview_try e fs p = (Inl x, t, fs1)"
  shows "fst (analyze_interview e fs p) = fallback_report"
  using assms by (simp add: analyze_interview_def)

lemma success_cleans_temp_dir:
  assumes "analyze_interview_try e fs p = (Inr r, Some d, fs1)" "d \<noteq> []"
  shows "analyze_interview e fs p = (r, fs1) \<and> fs1 d = None"
proof -
  from assms obtain a vi ov fs0 where
    pv: "process_video_for_interview_analysis e fs p None = (Video_ok a vi ov d, fs0)"
    and f: "fs1 = cleanup_temp_files fs0 d False"
    by (auto simp: analyze_interview_try_def
             split: if_splits prod.splits video_result.splits sum.splits)
  from pv have "fs0 d \<noteq> None"
    by (auto simp: process_video_for_interview_analysis_def extract_audio_from_video_def Let_def
                   path_join_def
             split: if_splits info_result.splits extraction.splits)
  then have "fs1 d = None" using f assms(2) by (simp add: cleanup_temp_files_def is_child_def startswith_def)
  then show ?thesis using assms by (simp add: analyze_interview_def)
qed

text \<open>
  Claim C3 at a failing input: a supported video whose audio extraction raises. The
  orchestrator returns the fallback report, but the directory that the video pipeline
  created with \<open>mkdtemp\<close> is still there afterwards: the pipeline returns no \<open>temp_dir\<close> on
  failure, so the handler finds the local variable unset and skips the cleanup.
\<close>

theorem analyze_interview_leaks_temp_dir:
  "fst (analyze_interview demo_env Map.empty ''clip.mp4'') = fallback_report
   \<and> snd (analyze_interview demo_env Map.empty ''clip.mp4'') ''/tmp/tmpab12'' = Some Dir"
  by code_simp

section \<open>Properties of float rounding\<close>

text \<open>
  Rounding to the nearest float moves a value by at most half a unit in the last place:
  the relative error is at most \<open>2^-53\<close>.
\<close>

lemma round_half_even_err: "\<bar>of_int (round_half_even y) - y\<bar> \<le> 1 / 2"
proof -
  have "of_int \<lfloor>y\<rfloor> \<le> y" "y < of_int \<lfloor>y\<rfloor> + 1" by linarith+
  then show ?thesis
    unfolding round_half_even_def Let_def by (auto split: if_splits)
qed

lemma round_half_even_nonneg: "0 \<le> y \<Longrightarrow> 0 \<le> round_half_even y"
  unfolding round_half_even_def Let_def by (auto split: if_splits)

lemma binade_bounds:
  assumes "0 < x"
  shows "2 powi binade x \<le> x \<and> x < 2 powi (binade x + 1)"
proof (cases "1 \<le> x")
  case True
  let ?n = "\<lfloor>x\<rfloor>"
  have n: "0 < ?n" using True by linarith
  from bitlen_bounds [OF n]
  have b: "2 ^ nat (bitlen ?n - 1) \<le> ?n" "?n < 2 ^ nat (bitlen ?n)" by auto
  have bl: "0 < bitlen ?n"
    using n bitlen_eq_zero_iff [of ?n] bitlen_nonneg [of ?n] by linarith
  have e: "binade x = bitlen ?n - 1" using True by (simp add: binade_def)
  have "(2::rat) powi binade x = of_int (2 ^ nat (bitlen ?n - 1))"
    using bl e by (simp add: power_int_def)
  also have "\<dots> \<le> of_int ?n" using b(1) by (simp only: of_int_le_iff)
  also have "\<dots> \<le> x" by simp
  finally have lo: "2 powi binade x \<le> x" .
  have "?n + 1 \<le> 2 ^ nat (bitlen ?n)" using b(2) by simp
  then have "(of_int (?n + 1) :: rat) \<le> of_int (2 ^ nat (bitlen ?n))" by (simp only: of_int_le_iff)
  moreover have "x < of_int (?n + 1)" by simp linarith
  moreover have "(2::rat) powi (binade x + 1) = of_int (2 ^ nat (bitlen ?n))"
    using bl e by (simp add: power_int_def)
  ultimately have "x < 2 powi (binade x + 1)" by simp
  with lo show ?thesis by simp
next
  case False
  let ?y = "1 / x"
  let ?m = "\<lceil>?y\<rceil> - 1"
  have y1: "1 < ?y" using False assms by simp
  have m: "0 < ?m" using y1 by linarith
  from bitlen_bounds [OF m]
  have b: "2 ^ nat (bitlen ?m - 1) \<le> ?m" "?m < 2 ^ nat (bitlen ?m)" by auto
  have bl: "0 < bitlen ?m"
    using m bitlen_eq_zero_iff [of ?m] bitlen_nonneg [of ?m] by linarith
  have e: "binade x = - bitlen ?m" using False by (simp add: binade_def)
  have my: "of_int ?m < ?y" "?y \<le> of_int ?m + 1" by linarith+
  define k where "k = nat (bitlen ?m)"
  define k' where "k' = nat (bitlen ?m - 1)"
  have bk: "2 ^ k' \<le> ?m" "?m < 2 ^ k" using b by (simp_all add: k_def k'_def)
  have "?m + 1 \<le> 2 ^ k" using bk(2) by simp
  then have "(of_int (?m + 1) :: rat) \<le> of_int (2 ^ k)" by (simp only: of_int_le_iff)
  then have "(of_int ?m :: rat) + 1 \<le> 2 ^ k" by simp
  with my(2) have up: "?y \<le> 2 ^ k" by linarith
  have "(of_int (2 ^ k') :: rat) \<le> of_int ?m" using bk(1) by (simp only: of_int_le_iff)
  then have "(2 :: rat) ^ k' \<le> of_int ?m" by simp
  with my(1) have low: "2 ^ k' < ?y" by linarith
  have p1: "(2::rat) powi binade x = 1 / 2 ^ k"
    using bl e by (simp add: power_int_def field_simps k_def)
  have "binade x + 1 \<le> 0" "nat (- (binade x + 1)) = k'" using bl e by (simp_all add: k'_def)
  then have p2: "(2::rat) powi (binade x + 1) = 1 / 2 ^ k'"
    by (cases "binade x + 1 = 0") (simp_all add: power_int_def field_simps)
  have "1 / 2 ^ k \<le> x"
    using up assms by (simp add: field_simps)
  moreover have "x < 1 / 2 ^ k'"
    using low assms by (simp add: field_simps)
  ultimately show ?thesis using p1 p2 by simp
qed

lemma fl_err: "\<bar>fl x - x\<bar> \<le> \<bar>x\<bar> / 2 ^ 53"
proof (cases "x = 0")
  case True
  then show ?thesis by (simp add: fl_def)
next
  case False
  define u :: rat where "u = 2 powi (binade \<bar>x\<bar> - 52)"
  have upos: "0 < u" by (simp add: u_def)
  have f: "fl x = of_int (round_half_even (x / u)) * u"
    using False by (simp add: fl_def u_def Let_def)
  have "fl x - x = (of_int (round_half_even (x / u)) - x / u) * u"
    using upos f by (simp add: field_simps)
  then have "\<bar>fl x - x\<bar> = \<bar>of_int (round_half_even (x / u)) - x / u\<bar> * u"
    using upos by (simp add: abs_mult)
  also have "\<dots> \<le> (1 / 2) * u"
    using round_half_even_err [of "x / u"] upos by (intro mult_right_mono) auto
  finally have e1: "\<bar>fl x - x\<bar> \<le> u / 2" by simp
  have "0 < \<bar>x\<bar>" using False by simp
  from binade_bounds [OF this] have "2 powi binade \<bar>x\<bar> \<le> \<bar>x\<bar>" by simp
  moreover have "(2::rat) powi binade \<bar>x\<bar> = u * 2 ^ 52"
    by (simp add: u_def power_int_diff)
  ultimately have "u * 2 ^ 52 \<le> \<bar>x\<bar>" by simp
  then have "u / 2 \<le> \<bar>x\<bar> / 2 ^ 53" by simp
  with e1 show ?thesis by linarith
qed

lemma fl_nonneg:
  assumes "0 \<le> x"
  shows "0 \<le> fl x"
proof -
  have "\<bar>fl x - x\<bar> \<le> x / 2 ^ 53" using fl_err [of x] assms by simp
  moreover have "x / 2 ^ 53 \<le> x" using assms by (simp add: field_simps)
  ultimately show ?thesis by linarith
qed




lemma py_int_range:
  assumes "of_int lo \<le> x" "x \<le> of_int hi" "0 \<le> lo"
  shows "lo \<le> py_int x \<and> py_int x \<le> hi"
proof -
  have "0 \<le> x" using assms by (meson of_int_0_le_iff order_trans)
  then have "py_int x = \<lfloor>x\<rfloor>" by (simp add: py_int_def)
  moreover have "lo \<le> \<lfloor>x\<rfloor>" using assms(1) by (simp add: le_floor_iff)
  moreover have "\<lfloor>x\<rfloor> \<le> hi" using assms(2) by (simp add: floor_le_iff)
  ultimately show ?thesis by simp
qed

section \<open>The analyzers never raise and stay in range\<close>

lemma count_hits_nonneg: "0 \<le> count_hits ws text"
  by (auto simp: count_hits_def intro!: sum_list_nonneg)

lemma truediv_Some: "b \<noteq> 0 \<Longrightarrow> truediv a b = Some (fl (of_int a / of_int b))"
  by (simp add: truediv_def)

lemma raw_hesitation_rate_range:
  "\<exists>h. raw_hesitation_rate text = Some h \<and> 0 \<le> h \<and> h \<le> 100"
proof (cases "0 < int (length (split_ws text))")
  case False
  then show ?thesis by (simp add: raw_hesitation_rate_def)
next
  case True
  let ?n = "int (length (split_ws text))"
  let ?q = "fl (of_int (count_hits filler_words text) / of_int (max ?n 1))"
  have "(0::rat) \<le> of_int (count_hits filler_words text) / of_int (max ?n 1)"
    using count_hits_nonneg [of filler_words "text"] by simp
  then have "0 \<le> ?q" by (rule fl_nonneg)
  then have "0 \<le> fl (?q * 100)" by (intro fl_nonneg) simp
  moreover have "raw_hesitation_rate text = Some (min 100 (fl (?q * 100)))"
    using True by (simp add: raw_hesitation_rate_def truediv_def Let_def)
  ultimately show ?thesis by simp
qed

lemma raw_avg_sentence_length_Some: "\<exists>a. raw_avg_sentence_length text = Some a"
  by (simp add: raw_avg_sentence_length_def truediv_def Let_def)

lemma analyze_speech_patterns_range:
  "\<exists>m. analyze_speech_patterns text = Some m
     \<and> 0 \<le> confidence_score m \<and> confidence_score m \<le> 100
     \<and> 0 \<le> hesitation_rate m \<and> hesitation_rate m \<le> 100
     \<and> 50 \<le> clarity_score m \<and> clarity_score m \<le> 100"
proof -
  obtain h where h: "raw_hesitation_rate text = Some h" "0 \<le> h" "h \<le> 100"
    using raw_hesitation_rate_range by blast
  obtain a where a: "raw_avg_sentence_length text = Some a"
    using raw_avg_sentence_length_Some by blast
  define c where "c = min 100 (max 0 (fl (max 0 (fl (80 - h))
      + of_int (count_hits confident_phrases text * 5 - count_hits uncertain_phrases text * 3))))"
  define l where "l = max 50 (min 100 (fl (100 - fl (\<bar>fl (a - 15)\<bar> * 2))))"
  have m: "analyze_speech_patterns text =
      Some \<lparr> confidence_score = py_int c, clarity_score = py_int l, hesitation_rate = py_int h,
             filler_word_count = count_hits filler_words text,
             total_words = int (length (split_ws text)),
             avg_sentence_length = py_round_nd a 1 \<rparr>"
    by (simp add: analyze_speech_patterns_def h a c_def l_def Let_def)
  have "of_int 0 \<le> c" "c \<le> of_int 100" by (simp_all add: c_def)
  then have 1: "0 \<le> py_int c \<and> py_int c \<le> 100" by (rule py_int_range) simp
  have "of_int 50 \<le> l" "l \<le> of_int 100" by (simp_all add: l_def)
  then have 2: "50 \<le> py_int l \<and> py_int l \<le> 100" by (rule py_int_range) simp
  have "of_int 0 \<le> h" "h \<le> of_int 100" using h by simp_all
  then have 3: "0 \<le> py_int h \<and> py_int h \<le> 100" by (rule py_int_range) simp
  show ?thesis using m 1 2 3 by simp
qed

lemma total_emotion_score_nonzero: "total_emotion_score text \<noteq> 0"
  by (simp add: total_emotion_score_def Let_def)

lemma emotion_percentages_of_Some:
  "t \<noteq> 0 \<Longrightarrow> \<exists>ps. emotion_percentages_of xs t = Some ps \<and> map fst ps = map fst xs"
  by (induction xs t rule: emotion_percentages_of.induct)
     (auto simp: percentage_def truediv_def)

lemma basic_polarity_Some: "\<exists>p. basic_polarity text = Some p"
  by (simp add: basic_polarity_def truediv_def Let_def)

lemma emotion_scores_keys:
  "map fst (emotion_scores text) =
     [''enthusiasm'', ''confidence'', ''nervousness'', ''professionalism'', ''curiosity'']"
  by (simp add: emotion_scores_def emotion_keywords_def)

lemma analyze_sentiment_emotions_Some:
  "\<exists>s. analyze_sentiment_emotions adv tb text = Some s"
proof -
  obtain ps where ps: "emotion_percentages_of (emotion_scores text) (total_emotion_score text) = Some ps"
    "map fst ps = map fst (emotion_scores text)"
    using emotion_percentages_of_Some [OF total_emotion_score_nonzero] by blast
  then have "ps \<noteq> []" using emotion_scores_keys [of "text"] by auto
  then obtain d where d: "max_key ps = Some d" by (cases ps) (simp_all add: max_key_def)
  obtain p where p: "basic_polarity text = Some p" using basic_polarity_Some by blast
  show ?thesis
    by (cases adv; cases "tb text")
       (auto simp: analyze_sentiment_emotions_def ps d p Let_def)
qed

lemma analyze_speech_patterns_blank:
  "analyze_speech_patterns [] =
     Some \<lparr> confidence_score = 80, clarity_score = 70, hesitation_rate = 0,
            filler_word_count = 0, total_words = 0, avg_sentence_length = 0 \<rparr>
   \<and> analyze_speech_patterns ''   '' =
     Some \<lparr> confidence_score = 80, clarity_score = 70, hesitation_rate = 0,
            filler_word_count = 0, total_words = 0, avg_sentence_length = 0 \<rparr>"
  by code_simp

text \<open>
  Claim C4. For every transcript the speech analyzer and the sentiment analyzer return a
  result (no division raises), and the speech metrics satisfy: confidence in 0..100,
  hesitation rate in 0..100, clarity in 50..100. The empty and the blank transcript give
  confidence 80, clarity 70 and hesitation 0.
\<close>

theorem analyzers_never_raise_and_stay_in_range:
  "(\<exists>m. analyze_speech_patterns text = Some m
      \<and> 0 \<le> confidence_score m \<and> confidence_score m \<le> 100
      \<and> 0 \<le> hesitation_rate m \<and> hesitation_rate m \<le> 100
      \<and> 50 \<le> clarity_score m \<and> clarity_score m \<le> 100)
   \<and> (\<exists>s. analyze_sentiment_emotions adv tb text = Some s)
   \<and> analyze_speech_patterns [] =
       Some \<lparr> confidence_score = 80, clarity_score = 70, hesitation_rate = 0,
              filler_word_count = 0, total_words = 0, avg_sentence_length = 0 \<rparr>
   \<and> analyze_speech_patterns ''   '' =
       Some \<lparr> confidence_score = 80, clarity_score = 70, hesitation_rate = 0,
              filler_word_count = 0, total_words = 0, avg_sentence_length = 0 \<rparr>"
  using analyze_speech_patterns_range [of "text"] analyze_sentiment_emotions_Some [of adv tb "text"]
    analyze_speech_patterns_blank
  by blast

section \<open>Float error of the weighted sum\<close>

lemma eps53_bounds: "0 < eps53" "1000 * eps53 < 1 / 20"
  by (simp_all add: eps53_def)












section \<open>The overall score\<close>



section \<open>The confidence score\<close>

text \<open>
  Claim C2, as stated, fails: the code clamps \<open>80 - hesitation_rate\<close> at 0 before it adds
  the phrase adjustment. For \<open>umumum definitely\<close> the hesitation rate is 100 and there
  is one confident phrase: the claimed formula gives \<open>clamp(-20 + 5) = 0\<close>, the code
  gives \<open>0 + 5 = 5\<close>.
\<close>

theorem confidence_formula_counterexample:
  "raw_hesitation_rate ''umumum definitely'' = Some 100
   \<and> map_option hesitation_rate (analyze_speech_patterns ''umumum definitely'') = Some 100
   \<and> count_hits confident_phrases ''umumum definitely'' = 1
   \<and> count_hits uncertain_phrases ''umumum definitely'' = 0
   \<and> claimed_confidence 100 1 0 = 0
   \<and> map_option confidence_score (analyze_speech_patterns ''umumum definitely'') = Some 5"
  by code_simp

text \<open>
  Claim C2, amended. With \<open>h\<close> the hesitation rate before truncation (between 0 and
  100), the confidence score is
  \<open>int(clamp(0, 100, max(0, 80 - h) + 5 confident hits - 3 uncertain hits))\<close> in float
  arithmetic, where the hits are the occurrence counts of the two phrase lists in the
  lowercased transcript; the returned hesitation rate is \<open>int(h)\<close>.
\<close>

theorem confidence_score_formula:
  "\<exists>h m. raw_hesitation_rate text = Some h \<and> 0 \<le> h \<and> h \<le> 100
     \<and> analyze_speech_patterns text = Some m
     \<and> hesitation_rate m = py_int h
     \<and> confidence_score m =
         py_int (min 100 (max 0 (fl (max 0 (fl (80 - h))
            + of_int (5 * count_hits confident_phrases text
                      - 3 * count_hits uncertain_phrases text)))))"
proof -
  obtain h where h: "raw_hesitation_rate text = Some h" "0 \<le> h" "h \<le> 100"
    using raw_hesitation_rate_range by blast
  obtain a where a: "raw_avg_sentence_length text = Some a"
    using raw_avg_sentence_length_Some by blast
  show ?thesis
    using h by (simp add: analyze_speech_patterns_def a Let_def mult.commute)
qed

section \<open>The first maximum of a dict\<close>

lemma max_key_from_decomp:
  "\<exists>pre v post. (bk, bv) # rest = pre @ (max_key_from (bk, bv) rest, v) # post
      \<and> (\<forall>x\<in>set pre. snd x < v) \<and> (\<forall>x\<in>set post. snd x \<le> v)"
proof (induction rest arbitrary: bk bv)
  case Nil
  have "[(bk, bv)] = [] @ (max_key_from (bk, bv) [], bv) # []" by simp
  then show ?case by (metis empty_iff list.set(1))
next
  case (Cons kw rest)
  obtain k w where kw: "kw = (k, w)" by (cases kw)
  show ?case
  proof (cases "bv < w")
    case True
    define dk where "dk = max_key_from (k, w) rest"
    from Cons.IH [of k w] obtain pre v post where
      d: "kw # rest = pre @ (dk, v) # post"
      and lt: "\<forall>x\<in>set pre. snd x < v" and le: "\<forall>x\<in>set post. snd x \<le> v"
      unfolding dk_def kw by blast
    have "w \<le> v"
    proof (cases pre)
      case Nil
      with d kw show ?thesis by simp
    next
      case (Cons a pre')
      with d kw have "a = (k, w)" by simp
      with lt Cons show ?thesis by auto
    qed
    with True have "bv < v" by simp
    moreover have m: "max_key_from (bk, bv) (kw # rest) = dk"
      using True kw by (simp add: dk_def)
    moreover have "(bk, bv) # kw # rest = ((bk, bv) # pre) @ (dk, v) # post"
      using d by simp
    ultimately show ?thesis using lt le
      by (intro exI [of _ "(bk, bv) # pre"] exI [of _ v] exI [of _ post]) auto
  next
    case False
    define dk where "dk = max_key_from (bk, bv) rest"
    from Cons.IH [of bk bv] obtain pre v post where
      d: "(bk, bv) # rest = pre @ (dk, v) # post"
      and lt: "\<forall>x\<in>set pre. snd x < v" and le: "\<forall>x\<in>set post. snd x \<le> v"
      unfolding dk_def by blast
    have m: "max_key_from (bk, bv) (kw # rest) = dk"
      using False kw by (simp add: dk_def)
    show ?thesis
    proof (cases pre)
      case Nil
      with d have e: "bv = v" "rest = post" "dk = bk" by simp_all
      have "(bk, bv) # kw # rest = [] @ (dk, v) # (kw # post)"
        using e by simp
      moreover have "\<forall>x\<in>set (kw # post). snd x \<le> v" using le False kw e by auto
      ultimately show ?thesis unfolding m
        by (intro exI [of _ "[]"] exI [of _ v] exI [of _ "kw # post"]) auto
    next
      case (Cons a pre')
      with d have a: "a = (bk, bv)" and r: "rest = pre' @ (dk, v) # post"
        by simp_all
      have "bv < v" using lt Cons a by auto
      then have "w < v" using False by simp
      have "(bk, bv) # kw # rest = ((bk, bv) # kw # pre') @ (dk, v) # post"
        using r by simp
      moreover have "\<forall>x\<in>set ((bk, bv) # kw # pre'). snd x < v"
        using lt Cons a \<open>w < v\<close> kw by auto
      ultimately show ?thesis using le unfolding m
        by (intro exI [of _ "(bk, bv) # kw # pre'"] exI [of _ v] exI [of _ post]) auto
    qed
  qed
qed

lemma find_first:
  "\<forall>x\<in>set pre. \<not> P x \<Longrightarrow> P y \<Longrightarrow> find P (pre @ y # post) = Some y"
  by (induction pre) auto

lemma max_key_first:
  assumes "ps \<noteq> []"
  shows "max_key ps = first_key_with_max ps"
proof -
  obtain bk bv rest where ps: "ps = (bk, bv) # rest" using assms by (cases ps) auto
  from max_key_from_decomp [of bk bv rest] obtain pre v post where
    d: "ps = pre @ (max_key_from (bk, bv) rest, v) # post"
    and lt: "\<forall>x\<in>set pre. snd x < v" and le: "\<forall>x\<in>set post. snd x \<le> v"
    unfolding ps by blast
  let ?P = "\<lambda>kv. list_all (\<lambda>kw. snd kw \<le> snd kv) ps"
  let ?y = "(max_key_from (bk, bv) rest, v)"
  have y: "?P ?y" using lt le by (subst d) (auto simp: list_all_iff)
  have "?y \<in> set ps" by (subst d) simp
  then have n: "\<forall>x\<in>set pre. \<not> ?P x" using lt by (fastforce simp: list_all_iff)
  have "find ?P (pre @ ?y # post) = Some ?y" using n y by (rule find_first)
  then have "find ?P ps = Some ?y" using d by simp
  then show ?thesis by (simp add: first_key_with_max_def max_key_def ps)
qed

section \<open>Float error of a percentage\<close>

lemma fl_err_eps: "\<bar>fl x - x\<bar> \<le> \<bar>x\<bar> * eps53"
  using fl_err [of x] by (simp add: eps53_def)

lemma eps53_le_one: "eps53 \<le> 1"
  by (simp add: eps53_def)

lemma percentage_bounds:
  assumes "0 \<le> sc" "0 < t"
  shows "\<exists>p. percentage sc t = Some p
           \<and> p = py_int (fl (fl (of_int sc / of_int t) * 100))
           \<and> 0 \<le> p
           \<and> of_int p \<le> (100 + 300 * eps53) * (of_int sc / of_int t)
           \<and> (100 - 300 * eps53) * (of_int sc / of_int t) - 1 \<le> of_int p"
proof -
  define x where "x = (of_int sc :: rat) / of_int t"
  define z where "z = x * eps53"
  define q where "q = fl x"
  define y where "y = q * 100"
  define r where "r = fl y"
  have x0: "0 \<le> x" using assms by (simp add: x_def)
  have z0: "0 \<le> z" using x0 eps53_bounds(1) by (simp add: z_def)
  have q0: "0 \<le> q" unfolding q_def using x0 by (rule fl_nonneg)
  have "\<bar>q - x\<bar> \<le> \<bar>x\<bar> * eps53" unfolding q_def by (rule fl_err_eps)
  then have qx: "\<bar>q - x\<bar> \<le> z" using x0 by (simp add: z_def)
  have y0: "0 \<le> y" using q0 by (simp add: y_def)
  have r0: "0 \<le> r" unfolding r_def using y0 by (rule fl_nonneg)
  have "\<bar>r - y\<bar> \<le> \<bar>y\<bar> * eps53" unfolding r_def by (rule fl_err_eps)
  then have ry: "\<bar>r - y\<bar> \<le> 100 * (q * eps53)" using y0 by (simp add: y_def)
  have "q \<le> x + z" using qx by linarith
  then have "q * eps53 \<le> (x + z) * eps53"
    using eps53_bounds(1) by (intro mult_right_mono) simp_all
  moreover have "(x + z) * eps53 = z + z * eps53" by (simp add: z_def algebra_simps)
  moreover have "z * eps53 \<le> z * 1" using z0 eps53_le_one by (intro mult_left_mono) simp_all
  ultimately have "q * eps53 \<le> 2 * z" by linarith
  with ry have ry': "\<bar>r - y\<bar> \<le> 200 * z" by linarith
  have c: "\<bar>r - 100 * x\<bar> \<le> 300 * z" using ry' qx by (simp add: y_def)
  define p where "p = py_int r"
  have pf: "p = \<lfloor>r\<rfloor>" using r0 by (simp add: p_def py_int_def)
  have p0: "0 \<le> p" using r0 pf by simp
  have "of_int p \<le> r" "r - 1 < of_int p" unfolding pf by linarith+
  then have b: "of_int p \<le> 100 * x + 300 * z" "100 * x - 300 * z - 1 \<le> of_int p"
    using c by linarith+
  have e1: "(100 + 300 * eps53) * x = 100 * x + 300 * z" by (simp add: z_def algebra_simps)
  have e2: "(100 - 300 * eps53) * x = 100 * x - 300 * z" by (simp add: z_def algebra_simps)
  have "percentage sc t = Some p"
    using assms by (simp add: percentage_def truediv_def p_def r_def y_def q_def x_def)
  moreover have "p = py_int (fl (fl (of_int sc / of_int t) * 100))"
    by (simp add: p_def r_def y_def q_def x_def)
  ultimately show ?thesis using p0 b e1 e2 unfolding x_def by auto
qed

lemma emotion_scores_explicit:
  "\<exists>a1 a2 a3 a4 a5.
     emotion_scores text =
       [(''enthusiasm'', a1), (''confidence'', a2), (''nervousness'', a3),
        (''professionalism'', a4), (''curiosity'', a5)]
     \<and> 0 \<le> a1 \<and> 0 \<le> a2 \<and> 0 \<le> a3 \<and> 0 \<le> a4 \<and> 0 \<le> a5"
  by (simp add: emotion_scores_def emotion_keywords_def count_hits_nonneg)

lemma sentiment_label_total:
  "\<exists>pol subj.
     (if adv then (case tb text of Some (p, s) \<Rightarrow> Some (p, s)
                   | None \<Rightarrow> Some (fl (2 / 10), fl (5 / 10)))
      else do { p \<leftarrow> basic_polarity text; Some (p, fl (6 / 10)) }) = Some (pol, subj)"
proof -
  obtain p where "basic_polarity text = Some p" using basic_polarity_Some by blast
  then show ?thesis by (cases adv; cases "tb text") auto
qed

section \<open>The emotion breakdown\<close>

text \<open>
  Claim C6, as stated, fails on a transcript without any emotion keyword, such as the
  empty one: the denominator is forced to 1, every percentage is 0, and the percentages
  sum to 0, not to about 100.
\<close>

theorem emotion_percentages_sum_counterexample:
  "map_option emotion_breakdown (analyze_sentiment_emotions False (textblob demo_env) []) =
     Some [(''enthusiasm'', 0), (''confidence'', 0), (''nervousness'', 0),
           (''professionalism'', 0), (''curiosity'', 0)]
   \<and> map_option breakdown_sum (analyze_sentiment_emotions False (textblob demo_env) []) = Some 0"
  by code_simp

text \<open>
  Claim C6, amended. The emotion breakdown maps the five fixed emotion names, in their
  fixed order, to \<open>int(score / total * 100)\<close>, the truncated float percentage of the
  emotion's keyword hits in the total hit count (forced to 1 when there is no hit). Each
  percentage is between 0 and 100. Without any hit all percentages are 0 and the
  dominant emotion is the first name, \<open>enthusiasm\<close>; with at least one hit the
  percentages sum to a value between 95 and 100. The dominant emotion is the first key,
  in insertion order, whose percentage is the maximum.
\<close>

theorem emotion_breakdown_percentages:
  "\<exists>s. analyze_sentiment_emotions adv tb text = Some s
     \<and> map fst (emotion_breakdown s) =
         [''enthusiasm'', ''confidence'', ''nervousness'', ''professionalism'', ''curiosity'']
     \<and> map snd (emotion_breakdown s) =
         map (\<lambda>sc. py_int (fl (fl (of_int sc / of_int (total_emotion_score text)) * 100)))
           (map snd (emotion_scores text))
     \<and> 1 \<le> total_emotion_score text
     \<and> list_all (\<lambda>p. 0 \<le> p \<and> p \<le> 100) (map snd (emotion_breakdown s))
     \<and> ((sum_list (map snd (emotion_scores text)) = 0 \<and> breakdown_sum s = 0
          \<and> dominant_emotion s = ''enthusiasm'')
        \<or> (0 < sum_list (map snd (emotion_scores text))
           \<and> total_emotion_score text = sum_list (map snd (emotion_scores text))
           \<and> 95 \<le> breakdown_sum s \<and> breakdown_sum s \<le> 100))
     \<and> first_key_with_max (emotion_breakdown s) = Some (dominant_emotion s)"
proof -
  obtain a1 a2 a3 a4 a5 where
    es: "emotion_scores text =
       [(''enthusiasm'', a1), (''confidence'', a2), (''nervousness'', a3),
        (''professionalism'', a4), (''curiosity'', a5)]"
    and a: "0 \<le> a1" "0 \<le> a2" "0 \<le> a3" "0 \<le> a4" "0 \<le> a5"
    using emotion_scores_explicit [of "text"] by blast
  define hits where "hits = a1 + a2 + a3 + a4 + a5"
  define t where "t = total_emotion_score text"
  have hs: "sum_list (map snd (emotion_scores text)) = hits" by (simp add: es hits_def)
  have t: "t = (if hits = 0 then 1 else hits)"
    by (simp add: t_def total_emotion_score_def es hits_def Let_def)
  have h0: "0 \<le> hits" using a by (simp add: hits_def)
  have tpos: "0 < t" using t h0 by auto
  define f where "f = (\<lambda>sc. py_int (fl (fl (of_int sc / of_int t) * 100)))"
  have pb: "\<And>sc. 0 \<le> sc \<Longrightarrow> percentage sc t = Some (f sc) \<and> 0 \<le> f sc
        \<and> of_int (f sc) \<le> (100 + 300 * eps53) * (of_int sc / of_int t)
        \<and> (100 - 300 * eps53) * (of_int sc / of_int t) - 1 \<le> of_int (f sc)"
    using percentage_bounds [OF _ tpos] unfolding f_def by blast
  note p1 = pb [OF a(1)] and p2 = pb [OF a(2)] and p3 = pb [OF a(3)]
    and p4 = pb [OF a(4)] and p5 = pb [OF a(5)]
  define ps where "ps = [(''enthusiasm'', f a1), (''confidence'', f a2), (''nervousness'', f a3),
        (''professionalism'', f a4), (''curiosity'', f a5)]"
  have ep: "emotion_percentages_of (emotion_scores text) (total_emotion_score text) = Some ps"
    using p1 p2 p3 p4 p5 by (simp add: es ps_def t_def [symmetric])
  obtain d where d: "max_key ps = Some d" by (simp add: max_key_def ps_def)
  obtain pol subj where ps0:
    "(if adv then (case tb text of Some (p, s) \<Rightarrow> Some (p, s)
                   | None \<Rightarrow> Some (fl (2 / 10), fl (5 / 10)))
      else do { p \<leftarrow> basic_polarity text; Some (p, fl (6 / 10)) }) = Some (pol, subj)"
    using sentiment_label_total [of adv tb "text"] by blast
  define s where "s = \<lparr> overall_sentiment =
        (if fl (3 / 10) < pol then ''Positive''
         else if pol < - fl (3 / 10) then ''Negative'' else ''Neutral''),
      polarity = py_round_nd pol 2, subjectivity = py_round_nd subj 2,
      emotion_breakdown = ps, dominant_emotion = d \<rparr>"
  have r: "analyze_sentiment_emotions adv tb text = Some s"
    unfolding analyze_sentiment_emotions_def ps0 ep by (simp add: d s_def Let_def)
  have eb: "emotion_breakdown s = ps" and de: "dominant_emotion s = d" by (simp_all add: s_def)
  have c1: "map fst ps =
         [''enthusiasm'', ''confidence'', ''nervousness'', ''professionalism'', ''curiosity'']"
    by (simp add: ps_def)
  have c2: "map snd ps = map f (map snd (emotion_scores text))" by (simp add: ps_def es)
  have c3: "1 \<le> t" using tpos by simp
  have bs: "breakdown_sum s = f a1 + f a2 + f a3 + f a4 + f a5"
    by (simp add: breakdown_sum_def eb ps_def)
  have "ps \<noteq> []" by (simp add: ps_def)
  then have c6: "first_key_with_max ps = Some d" using max_key_first [of ps] d by simp
  have c45: "list_all (\<lambda>p. 0 \<le> p \<and> p \<le> 100) (map snd ps)
     \<and> ((hits = 0 \<and> breakdown_sum s = 0 \<and> d = ''enthusiasm'')
        \<or> (0 < hits \<and> t = hits \<and> 95 \<le> breakdown_sum s \<and> breakdown_sum s \<le> 100))"
  proof (cases "hits = 0")
    case True
    then have z: "a1 = 0" "a2 = 0" "a3 = 0" "a4 = 0" "a5 = 0" using a by (simp_all add: hits_def)
    have "of_int (f 0) \<le> (0::rat)" using pb [of 0] by simp
    then have "f 0 \<le> 0" by simp
    moreover have "0 \<le> f 0" using pb [of 0] by simp
    ultimately have f0: "f 0 = 0" by simp
    have "ps = [(''enthusiasm'', 0), (''confidence'', 0), (''nervousness'', 0),
        (''professionalism'', 0), (''curiosity'', 0)]"
      by (simp add: ps_def z f0)
    then have "d = ''enthusiasm''" using d by (simp add: max_key_def)
    then show ?thesis using True bs z f0 by (simp add: ps_def)
  next
    case False
    then have hp: "0 < hits" and th: "t = hits" using h0 t by auto
    define x where "x = (\<lambda>sc. (of_int sc :: rat) / of_int t)"
    have "x a1 + x a2 + x a3 + x a4 + x a5 = of_int hits / of_int t"
      by (simp add: x_def hits_def add_divide_distrib)
    then have sx: "x a1 + x a2 + x a3 + x a4 + x a5 = 1" using hp th by simp
    define u where "u = (100 + 300 * eps53)"
    define v where "v = (100 - 300 * eps53)"
    have up: "of_int (f a1) \<le> u * x a1" "of_int (f a2) \<le> u * x a2" "of_int (f a3) \<le> u * x a3"
      "of_int (f a4) \<le> u * x a4" "of_int (f a5) \<le> u * x a5"
      using p1 p2 p3 p4 p5 by (simp_all add: x_def u_def)
    have lo: "v * x a1 - 1 \<le> of_int (f a1)" "v * x a2 - 1 \<le> of_int (f a2)"
      "v * x a3 - 1 \<le> of_int (f a3)" "v * x a4 - 1 \<le> of_int (f a4)"
      "v * x a5 - 1 \<le> of_int (f a5)"
      using p1 p2 p3 p4 p5 by (simp_all add: x_def v_def)
    have su: "u * x a1 + u * x a2 + u * x a3 + u * x a4 + u * x a5 = u"
      using sx by (metis distrib_left mult.right_neutral)
    have sv: "v * x a1 + v * x a2 + v * x a3 + v * x a4 + v * x a5 = v"
      using sx by (metis distrib_left mult.right_neutral)
    have "(of_int (breakdown_sum s) :: rat) \<le> u" unfolding bs using up su by simp
    then have "(of_int (breakdown_sum s) :: rat) < 101" using eps53_bounds by (simp add: u_def)
    then have le: "breakdown_sum s \<le> 100" by linarith
    have "v - 5 \<le> (of_int (breakdown_sum s) :: rat)" unfolding bs using lo sv by simp
    then have "(94 :: rat) < of_int (breakdown_sum s)" using eps53_bounds by (simp add: v_def)
    then have ge: "95 \<le> breakdown_sum s" by linarith
    have nn: "0 \<le> f a1" "0 \<le> f a2" "0 \<le> f a3" "0 \<le> f a4" "0 \<le> f a5"
      using p1 p2 p3 p4 p5 by simp_all
    then have "f a1 \<le> 100" "f a2 \<le> 100" "f a3 \<le> 100" "f a4 \<le> 100" "f a5 \<le> 100"
      using le bs by linarith+
    then show ?thesis using nn hp th le ge by (simp add: ps_def)
  qed
  show ?thesis
    using r c1 c2 c3 c45 c6 unfolding eb [symmetric] de [symmetric] hs t_def f_def
    by (intro exI [of _ s]) simp
qed

end
